theory Spec2Isabelle
  imports Complex_Main "HOL-Library.Log_Nat"
begin

section \<open>Data model\<close>

text \<open>
  The tables of \<^verbatim>\<open>prisma/migrations/20260117085343_init/migration.sql\<close> that the
  prescription and pharmacy controllers read and write. A table is the list of its rows in
  insertion order. Ids are the uuid strings Prisma generates. A money column (DECIMAL) holds
  a rational; the handlers compute on money with JavaScript numbers, and what they write is
  the value of the double they computed (section \<open>JavaScript numbers\<close>). Timestamps are
  natural numbers. The free-text \<^verbatim>\<open>description\<close>
  and \<^verbatim>\<open>details\<close> columns and the \<^verbatim>\<open>createdAt\<close>/\<^verbatim>\<open>updatedAt\<close> columns carry no
  logic and are left out. Of the tables \<^verbatim>\<open>users\<close> and \<^verbatim>\<open>patients\<close> only the
  primary keys are kept: they are what the foreign keys of the other tables refer to.
\<close>

type_synonym uuid = string
type_synonym money = rat
type_synonym datetime = nat

record visit_row =
  visit_id :: uuid
  visit_patientId :: uuid
  visit_doctorId :: uuid
  visit_visitDate :: datetime
  visit_chiefComplaint :: string
  visit_status :: string

record stock_row =
  stock_id :: uuid
  medicationName :: string
  currentStock :: int
  minimumStock :: int
  costPrice :: money
  sellingPrice :: money
  expiryDate :: "datetime option"

record transaction_row =
  txn_id :: uuid
  txn_type :: string
  txn_category :: string
  txn_amount :: money
  txn_referenceId :: "uuid option"
  txn_referenceType :: "string option"
  txn_paymentMethod :: "string option"
  txn_createdBy :: uuid
  txn_patientId :: "uuid option"

record prescription_row =
  rx_id :: uuid
  rx_visitId :: uuid
  rx_prescribedBy :: uuid
  rx_medication :: string
  rx_dosage :: string
  rx_frequency :: string
  rx_duration :: string
  rx_quantity :: int
  rx_instructions :: "string option"
  rx_status :: string
  rx_totalAmount :: "money option"
  rx_paymentStatus :: string
  rx_paidAt :: "datetime option"
  rx_transactionId :: "uuid option"

record expense_row =
  exp_id :: uuid
  exp_category :: string
  exp_amount :: money
  exp_date :: datetime
  exp_createdBy :: uuid

record audit_row =
  audit_userId :: uuid
  audit_action :: string
  audit_entity :: string
  audit_entityId :: "string option"

record database =
  users :: "uuid list"
  patients :: "uuid list"
  visits :: "visit_row list"
  pharmacy_stock :: "stock_row list"
  transactions :: "transaction_row list"
  prescriptions :: "prescription_row list"
  expenses :: "expense_row list"
  audit_logs :: "audit_row list"

text \<open>
  Everything a handler can answer other than success. The constructors carry what the
  source's message interpolates. \<open>RecordNotFound\<close>, \<open>ForeignKeyViolation\<close> and
  \<open>UniqueViolation\<close> are the errors Prisma raises for an update of a missing row, for an
  insert whose reference does not resolve and for a write that would give two rows the same
  value in a unique column; \<open>TypeError\<close> is a property read on \<^verbatim>\<open>undefined\<close>.
\<close>

datatype error =
    MissingAnchor
  | NotAuthenticated
  | InvalidVisit
  | MedicationNotFound string
  | InsufficientStock string int int
  | PrescriptionNotFound
  | AlreadyFulfilled
  | CancelledPrescription
  | StockEntryNotFound
  | InsufficientStockFor int int
  | AdjustNotFound
  | AdjustInsufficient
  | RecordNotFound
  | ForeignKeyViolation string
  | TypeError
  | ValidationError
  | UniqueViolation string

section \<open>JavaScript numbers\<close>

text \<open>
  \<^verbatim>\<open>Number(price) * quantity\<close> is a multiplication of IEEE 754 doubles. A finite double is a
  rational \<open>m * 2 ^ e\<close> with a mantissa of at most 53 bits and \<open>e\<close> no less than -1074;
  \<open>to_double\<close> rounds a rational to the nearest such number, ties to the even mantissa, as
  the conversion of a decimal and every arithmetic operation on doubles do. So
  \<^verbatim>\<open>1.2 * 3\<close> is 3.5999999999999996 and \<^verbatim>\<open>0.5 * 4\<close> is 2. The exponent has no upper
  bound here: where the double would be \<^verbatim>\<open>Infinity\<close> (beyond about 1.8e308) the model
  has a number the code does not have. A quantity is an integer the code holds as a double;
  it is taken as itself (exact up to 2 ^ 53).
\<close>

definition pow2 :: "int \<Rightarrow> rat" where
  "pow2 e = (if 0 \<le> e then 2 ^ nat e else 1 / 2 ^ nat (- e))"

text \<open>The integer part of the binary logarithm of a positive rational.\<close>

definition ilog2 :: "rat \<Rightarrow> int" where
  "ilog2 a = (let (p, q) = quotient_of a; k = bitlen p - bitlen q in
              if pow2 k \<le> a then k else k - 1)"

definition round_half_even :: "rat \<Rightarrow> int" where
  "round_half_even x =
     (let f = \<lfloor>x\<rfloor>; d = x - of_int f in
      if d < 1 / 2 then f else if 1 / 2 < d then f + 1 else if even f then f else f + 1)"

definition to_double :: "rat \<Rightarrow> rat" where
  "to_double x =
     (if x = 0 then 0
      else (let a = \<bar>x\<bar>; e = max (ilog2 a - 52) (- 1074) in
            sgn x * of_int (round_half_even (a / pow2 e)) * pow2 e))"

text \<open>\<^verbatim>\<open>Number(d)\<close> of a decimal, and \<^verbatim>\<open>a * b\<close> of two doubles.\<close>

definition js_Number :: "rat \<Rightarrow> rat" where
  "js_Number d = to_double d"

definition js_mul :: "rat \<Rightarrow> rat \<Rightarrow> rat" where
  "js_mul a b = to_double (a * b)"

text \<open>
  The product of a price and a quantity as the handlers compute it:
  \<^verbatim>\<open>Number(price) * quantity\<close>.
\<close>

definition computed_product :: "rat \<Rightarrow> int \<Rightarrow> rat" where
  "computed_product price n = js_mul (js_Number price) (of_int n)"

section \<open>The ORM operations\<close>

text \<open>
  Each operation takes the database and returns its result together with the database
  after it. \<^verbatim>\<open>@default(uuid())\<close> is a function of the ids already in the table whose
  value is none of them.
\<close>

definition fresh_id :: "uuid list \<Rightarrow> uuid" where
  "fresh_id ids = replicate (Suc (foldr (\<lambda>i n. max (length i) n) ids 0)) (CHR ''0'')"

definition visit_create ::
  "(uuid \<Rightarrow> visit_row) \<Rightarrow> database \<Rightarrow> (error + visit_row) \<times> database" where
  "visit_create mk db =
     (let row = mk (fresh_id (map visit_id (visits db))) in
      if visit_patientId row \<notin> set (patients db) then (Inl (ForeignKeyViolation ''patientId''), db)
      else if visit_doctorId row \<notin> set (users db) then (Inl (ForeignKeyViolation ''doctorId''), db)
      else (Inr row, db\<lparr>visits := visits db @ [row]\<rparr>))"

definition visit_findUnique :: "uuid \<Rightarrow> database \<Rightarrow> visit_row option" where
  "visit_findUnique i db = find (\<lambda>v. visit_id v = i) (visits db)"

definition pharmacyStock_findFirst :: "string \<Rightarrow> database \<Rightarrow> stock_row option" where
  "pharmacyStock_findFirst name db = find (\<lambda>s. medicationName s = name) (pharmacy_stock db)"

definition pharmacyStock_findUnique :: "uuid \<Rightarrow> database \<Rightarrow> stock_row option" where
  "pharmacyStock_findUnique i db = find (\<lambda>s. stock_id s = i) (pharmacy_stock db)"

text \<open>
  \<^verbatim>\<open>medicationName\<close> is a unique column of \<^verbatim>\<open>pharmacy_stock\<close> (migration.sql, line
  193): an update that gives the row the name of another row is refused and writes nothing.
\<close>

definition pharmacyStock_update ::
  "uuid \<Rightarrow> (stock_row \<Rightarrow> stock_row) \<Rightarrow> database \<Rightarrow> (error + stock_row) \<times> database" where
  "pharmacyStock_update i f db =
     (case find (\<lambda>s. stock_id s = i) (pharmacy_stock db) of
        None \<Rightarrow> (Inl RecordNotFound, db)
      | Some s \<Rightarrow>
          if medicationName (f s) \<noteq> medicationName s
             \<and> list_ex (\<lambda>r. stock_id r \<noteq> i \<and> medicationName r = medicationName (f s))
                   (pharmacy_stock db)
          then (Inl (UniqueViolation ''medicationName''), db)
          else
            (Inr (f s),
             db\<lparr>pharmacy_stock :=
                  map (\<lambda>r. if stock_id r = i then f r else r) (pharmacy_stock db)\<rparr>))"

definition transaction_create ::
  "(uuid \<Rightarrow> transaction_row) \<Rightarrow> database \<Rightarrow> (error + transaction_row) \<times> database" where
  "transaction_create mk db =
     (let row = mk (fresh_id (map txn_id (transactions db))) in
      if txn_createdBy row \<notin> set (users db) then (Inl (ForeignKeyViolation ''createdBy''), db)
      else if (case txn_patientId row of None \<Rightarrow> False | Some p \<Rightarrow> p \<notin> set (patients db))
        then (Inl (ForeignKeyViolation ''patientId''), db)
      else (Inr row, db\<lparr>transactions := transactions db @ [row]\<rparr>))"

definition transaction_update ::
  "uuid \<Rightarrow> (transaction_row \<Rightarrow> transaction_row) \<Rightarrow> database
     \<Rightarrow> (error + transaction_row) \<times> database" where
  "transaction_update i f db =
     (case find (\<lambda>t. txn_id t = i) (transactions db) of
        None \<Rightarrow> (Inl RecordNotFound, db)
      | Some t \<Rightarrow>
          (Inr (f t),
           db\<lparr>transactions := map (\<lambda>r. if txn_id r = i then f r else r) (transactions db)\<rparr>))"

definition prescription_create ::
  "(uuid \<Rightarrow> prescription_row) \<Rightarrow> database \<Rightarrow> (error + prescription_row) \<times> database" where
  "prescription_create mk db =
     (let row = mk (fresh_id (map rx_id (prescriptions db))) in
      if rx_visitId row \<notin> set (map visit_id (visits db)) then (Inl (ForeignKeyViolation ''visitId''), db)
      else if rx_prescribedBy row \<notin> set (users db)
        then (Inl (ForeignKeyViolation ''prescribedBy''), db)
      else (Inr row, db\<lparr>prescriptions := prescriptions db @ [row]\<rparr>))"

definition prescription_findUnique :: "uuid \<Rightarrow> database \<Rightarrow> prescription_row option" where
  "prescription_findUnique i db = find (\<lambda>p. rx_id p = i) (prescriptions db)"

definition prescription_update ::
  "uuid \<Rightarrow> (prescription_row \<Rightarrow> prescription_row) \<Rightarrow> database
     \<Rightarrow> (error + prescription_row) \<times> database" where
  "prescription_update i f db =
     (case find (\<lambda>p. rx_id p = i) (prescriptions db) of
        None \<Rightarrow> (Inl RecordNotFound, db)
      | Some p \<Rightarrow>
          (Inr (f p),
           db\<lparr>prescriptions := map (\<lambda>r. if rx_id r = i then f r else r) (prescriptions db)\<rparr>))"

definition expense_create ::
  "(uuid \<Rightarrow> expense_row) \<Rightarrow> database \<Rightarrow> (error + expense_row) \<times> database" where
  "expense_create mk db =
     (let row = mk (fresh_id (map exp_id (expenses db))) in
      if exp_createdBy row \<notin> set (users db) then (Inl (ForeignKeyViolation ''createdBy''), db)
      else (Inr row, db\<lparr>expenses := expenses db @ [row]\<rparr>))"

text \<open>
  \<^verbatim>\<open>prisma.$transaction(async (tx) => ...)\<close>: the callback runs on the database; when it
  throws, the database is the one before the call, whatever the callback had written.
\<close>

definition prisma_transaction ::
  "(database \<Rightarrow> (error + 'a) \<times> database) \<Rightarrow> database \<Rightarrow> (error + 'a) \<times> database" where
  "prisma_transaction body db =
     (case body db of
        (Inl e, _) \<Rightarrow> (Inl e, db)
      | (Inr r, db') \<Rightarrow> (Inr r, db'))"

text \<open>
  \<^verbatim>\<open>createAuditLog\<close> (utils/audit.utils.ts) catches whatever the insert throws: the
  audit row is written when its user exists and dropped otherwise.
\<close>

definition createAuditLog :: "audit_row \<Rightarrow> database \<Rightarrow> database" where
  "createAuditLog a db =
     (if audit_userId a \<in> set (users db) then db\<lparr>audit_logs := audit_logs db @ [a]\<rparr> else db)"

section \<open>createPrescription\<close>

text \<open>
  The request: the fields the handler reads of \<^verbatim>\<open>req.body\<close>, \<^verbatim>\<open>req.user\<close> (its
  \<^verbatim>\<open>userId\<close>, absent when the request carries no user) and the clock.
\<close>

record medication_item =
  medication :: string
  dosage :: string
  frequency :: string
  duration :: string
  quantity :: int
  instructions :: "string option"

record create_request =
  cp_visitId :: "uuid option"
  cp_patientId :: "uuid option"
  cp_prescribedBy :: uuid
  cp_medications :: "medication_item list"
  cp_paymentMethod :: "string option"
  cp_user :: "uuid option"
  cp_now :: datetime

text \<open>JavaScript truthiness of an optional string: absent and the empty string are falsy.\<close>

definition truthy :: "string option \<Rightarrow> bool" where
  "truthy v = (case v of None \<Rightarrow> False | Some s \<Rightarrow> s \<noteq> [])"

text \<open>\<^verbatim>\<open>x || d\<close> for an optional string.\<close>

definition or_default :: "string option \<Rightarrow> string \<Rightarrow> string" where
  "or_default v d = (case v of None \<Rightarrow> d | Some s \<Rightarrow> if s = [] then d else s)"

text \<open>Step 1 of the callback (lines 214-234): the id of the visit the batch hangs on.\<close>

definition ensure_visit :: "create_request \<Rightarrow> database \<Rightarrow> (error + uuid) \<times> database" where
  "ensure_visit req db =
     (if \<not> truthy (cp_visitId req) then
        (if \<not> truthy (cp_patientId req) then (Inl MissingAnchor, db)
         else case cp_user req of
           None \<Rightarrow> (Inl NotAuthenticated, db)
         | Some uid \<Rightarrow>
             (case visit_create
                     (\<lambda>i. \<lparr>visit_id = i, visit_patientId = or_default (cp_patientId req) [],
                           visit_doctorId = uid, visit_visitDate = cp_now req,
                           visit_chiefComplaint = ''Direct Prescription'',
                           visit_status = ''Completed''\<rparr>) db of
                (Inl e, db') \<Rightarrow> (Inl e, db')
              | (Inr visit, db') \<Rightarrow> (Inr (visit_id visit), db')))
      else (Inr (or_default (cp_visitId req) []), db))"

text \<open>The body of the loop over \<^verbatim>\<open>medications\<close> (lines 246-329), for one item.\<close>

definition fulfil_item ::
  "create_request \<Rightarrow> uuid \<Rightarrow> uuid \<Rightarrow> medication_item \<Rightarrow> database
     \<Rightarrow> (error + prescription_row) \<times> database" where
  "fulfil_item req finalVisitId transactionPatientId med db =
     (case pharmacyStock_findFirst (medication med) db of
        None \<Rightarrow> (Inl (MedicationNotFound (medication med)), db)
      | Some stockItem \<Rightarrow>
          if currentStock stockItem < quantity med
          then (Inl (InsufficientStock (medication med) (currentStock stockItem) (quantity med)), db)
          else
            (case pharmacyStock_update (stock_id stockItem)
                    (\<lambda>r. r\<lparr>currentStock := currentStock stockItem - quantity med\<rparr>) db of
               (Inl e, db1) \<Rightarrow> (Inl e, db1)
             | (Inr _, db1) \<Rightarrow>
                 (let totalAmount = js_mul (js_Number (sellingPrice stockItem)) (of_int (quantity med)) in
                  case transaction_create
                         (\<lambda>i. \<lparr>txn_id = i, txn_type = ''SALE'', txn_category = ''PHARMACY'',
                               txn_amount = totalAmount, txn_referenceId = None,
                               txn_referenceType = Some ''Prescription'',
                               txn_paymentMethod = Some (or_default (cp_paymentMethod req) ''Cash''),
                               txn_createdBy = or_default (cp_user req) [],
                               txn_patientId = Some transactionPatientId\<rparr>) db1 of
                    (Inl e, db2) \<Rightarrow> (Inl e, db2)
                  | (Inr transaction, db2) \<Rightarrow>
                      (case prescription_create
                              (\<lambda>i. \<lparr>rx_id = i, rx_visitId = finalVisitId,
                                    rx_prescribedBy = cp_prescribedBy req,
                                    rx_medication = medication med, rx_dosage = dosage med,
                                    rx_frequency = frequency med, rx_duration = duration med,
                                    rx_quantity = quantity med,
                                    rx_instructions = instructions med,
                                    rx_status = ''Completed'',
                                    rx_totalAmount = Some totalAmount,
                                    rx_paymentStatus = ''Paid'',
                                    rx_paidAt = Some (cp_now req),
                                    rx_transactionId = Some (txn_id transaction)\<rparr>) db2 of
                         (Inl e, db3) \<Rightarrow> (Inl e, db3)
                       | (Inr prescription, db3) \<Rightarrow>
                           (case transaction_update (txn_id transaction)
                                   (\<lambda>r. r\<lparr>txn_referenceId := Some (rx_id prescription)\<rparr>) db3 of
                              (Inl e, db4) \<Rightarrow> (Inl e, db4)
                            | (Inr _, db4) \<Rightarrow> (Inr prescription, db4))))))"

text \<open>The loop: items in the order submitted, stopping at the first throw.\<close>

fun fulfil_items ::
  "create_request \<Rightarrow> uuid \<Rightarrow> uuid \<Rightarrow> medication_item list \<Rightarrow> prescription_row list
     \<Rightarrow> database \<Rightarrow> (error + prescription_row list) \<times> database" where
  "fulfil_items req vid pid [] createdPrescriptions db = (Inr createdPrescriptions, db)"
| "fulfil_items req vid pid (med # meds) createdPrescriptions db =
     (case fulfil_item req vid pid med db of
        (Inl e, db') \<Rightarrow> (Inl e, db')
      | (Inr prescription, db') \<Rightarrow>
          fulfil_items req vid pid meds (createdPrescriptions @ [prescription]) db')"

text \<open>The callback handed to \<^verbatim>\<open>prisma.$transaction\<close> (lines 212-331).\<close>

definition createPrescription_tx ::
  "create_request \<Rightarrow> database \<Rightarrow> (error + prescription_row list) \<times> database" where
  "createPrescription_tx req db =
     (case ensure_visit req db of
        (Inl e, db1) \<Rightarrow> (Inl e, db1)
      | (Inr finalVisitId, db1) \<Rightarrow>
          (case visit_findUnique finalVisitId db1 of
             None \<Rightarrow> (Inl InvalidVisit, db1)
           | Some visitData \<Rightarrow>
               fulfil_items req finalVisitId (visit_patientId visitData)
                 (cp_medications req) [] db1))"

text \<open>
  The handler (lines 202-356): the transaction, then the audit record when the request has a
  user. Every throw ends in the \<^verbatim>\<open>catch\<close> that answers 500 with the message.
\<close>

definition createPrescription ::
  "create_request \<Rightarrow> database \<Rightarrow> (error + prescription_row list) \<times> database" where
  "createPrescription req db =
     (case prisma_transaction (createPrescription_tx req) db of
        (Inl e, db') \<Rightarrow> (Inl e, db')
      | (Inr result, db') \<Rightarrow>
          (Inr result,
           (case cp_user req of
              None \<Rightarrow> db'
            | Some uid \<Rightarrow>
                createAuditLog
                  \<lparr>audit_userId = uid, audit_action = ''CREATE_PRESCRIPTION_AUTO_FULFILLED'',
                   audit_entity = ''Prescription'',
                   audit_entityId =
                     Some (case result of [] \<Rightarrow> ''BATCH''
                           | p # _ \<Rightarrow> or_default (Some (rx_id p)) ''BATCH'')\<rparr> db')))"

section \<open>fulfillPrescription\<close>

record fulfill_request =
  fp_id :: uuid
  fp_paymentMethod :: "string option"
  fp_user :: "uuid option"
  fp_now :: datetime

text \<open>
  The callback of the transaction (lines 587-631). \<^verbatim>\<open>prescription.visit\<close> was loaded
  with the prescription; reading \<^verbatim>\<open>patientId\<close> of an absent visit throws.
\<close>

definition fulfillPrescription_tx ::
  "fulfill_request \<Rightarrow> uuid \<Rightarrow> prescription_row \<Rightarrow> visit_row option \<Rightarrow> stock_row \<Rightarrow> money
     \<Rightarrow> database \<Rightarrow> (error + stock_row \<times> transaction_row \<times> prescription_row) \<times> database" where
  "fulfillPrescription_tx req uid prescription visit medicationRow totalAmount db =
     (case pharmacyStock_update (stock_id medicationRow)
             (\<lambda>r. r\<lparr>currentStock := currentStock medicationRow - rx_quantity prescription\<rparr>) db of
        (Inl e, db1) \<Rightarrow> (Inl e, db1)
      | (Inr updatedStock, db1) \<Rightarrow>
          (case visit of
             None \<Rightarrow> (Inl TypeError, db1)
           | Some v \<Rightarrow>
               (case transaction_create
                       (\<lambda>i. \<lparr>txn_id = i, txn_type = ''SALE'', txn_category = ''PHARMACY'',
                             txn_amount = totalAmount,
                             txn_referenceId = Some (rx_id prescription),
                             txn_referenceType = Some ''Prescription'',
                             txn_paymentMethod =
                               Some (case fp_paymentMethod req of None \<Rightarrow> ''Cash'' | Some m \<Rightarrow> m),
                             txn_createdBy = uid,
                             txn_patientId = Some (visit_patientId v)\<rparr>) db1 of
                  (Inl e, db2) \<Rightarrow> (Inl e, db2)
                | (Inr transaction, db2) \<Rightarrow>
                    (case prescription_update (fp_id req)
                            (\<lambda>r. r\<lparr>rx_totalAmount := Some totalAmount,
                                   rx_paymentStatus := ''Paid'',
                                   rx_paidAt := Some (fp_now req),
                                   rx_transactionId := Some (txn_id transaction),
                                   rx_status := ''Completed''\<rparr>) db2 of
                       (Inl e, db3) \<Rightarrow> (Inl e, db3)
                     | (Inr updatedPrescription, db3) \<Rightarrow>
                         (Inr (updatedStock, transaction, updatedPrescription), db3)))))"

text \<open>The handler (lines 525-677): the checks run before the transaction opens.\<close>

definition fulfillPrescription ::
  "fulfill_request \<Rightarrow> database
     \<Rightarrow> (error + stock_row \<times> transaction_row \<times> prescription_row) \<times> database" where
  "fulfillPrescription req db =
     (case fp_user req of
        None \<Rightarrow> (Inl NotAuthenticated, db)
      | Some uid \<Rightarrow>
          (case prescription_findUnique (fp_id req) db of
             None \<Rightarrow> (Inl PrescriptionNotFound, db)
           | Some prescription \<Rightarrow>
               if rx_paymentStatus prescription = ''Paid'' then (Inl AlreadyFulfilled, db)
               else if rx_status prescription = ''Cancelled'' then (Inl CancelledPrescription, db)
               else
                 (case pharmacyStock_findFirst (rx_medication prescription) db of
                    None \<Rightarrow> (Inl StockEntryNotFound, db)
                  | Some medicationRow \<Rightarrow>
                      if currentStock medicationRow < rx_quantity prescription
                      then (Inl (InsufficientStockFor (currentStock medicationRow)
                                   (rx_quantity prescription)), db)
                      else
                        (let totalAmount =
                               js_mul (js_Number (sellingPrice medicationRow))
                                 (of_int (rx_quantity prescription)) in
                         case prisma_transaction
                                (fulfillPrescription_tx req uid prescription
                                   (visit_findUnique (rx_visitId prescription) db)
                                   medicationRow totalAmount) db of
                           (Inl e, db') \<Rightarrow> (Inl e, db')
                         | (Inr result, db') \<Rightarrow>
                             (Inr result,
                              createAuditLog
                                \<lparr>audit_userId = uid, audit_action = ''FULFILL_PRESCRIPTION'',
                                 audit_entity = ''Prescription'',
                                 audit_entityId = Some (rx_id prescription)\<rparr> db')))))"

section \<open>updatePrescription\<close>

text \<open>
  The handler (lines 494-522) hands \<^verbatim>\<open>req.body\<close> to \<^verbatim>\<open>prisma.prescription.update\<close>
  as it came: every column present in the body is written. The body is modelled by the
  columns below, each present or absent.
\<close>

record prescription_update_body =
  ub_status :: "string option"
  ub_instructions :: "string option"
  ub_quantity :: "int option"
  ub_totalAmount :: "money option"
  ub_paymentStatus :: "string option"
  ub_paidAt :: "datetime option"
  ub_transactionId :: "uuid option"

record update_request =
  up_id :: uuid
  up_body :: prescription_update_body
  up_user :: "uuid option"

definition apply_update_body :: "prescription_update_body \<Rightarrow> prescription_row \<Rightarrow> prescription_row" where
  "apply_update_body b r =
     r\<lparr>rx_status := (case ub_status b of None \<Rightarrow> rx_status r | Some s \<Rightarrow> s),
       rx_instructions := (case ub_instructions b of None \<Rightarrow> rx_instructions r | Some s \<Rightarrow> Some s),
       rx_quantity := (case ub_quantity b of None \<Rightarrow> rx_quantity r | Some q \<Rightarrow> q),
       rx_totalAmount := (case ub_totalAmount b of None \<Rightarrow> rx_totalAmount r | Some a \<Rightarrow> Some a),
       rx_paymentStatus := (case ub_paymentStatus b of None \<Rightarrow> rx_paymentStatus r | Some s \<Rightarrow> s),
       rx_paidAt := (case ub_paidAt b of None \<Rightarrow> rx_paidAt r | Some t \<Rightarrow> Some t),
       rx_transactionId :=
         (case ub_transactionId b of None \<Rightarrow> rx_transactionId r | Some t \<Rightarrow> Some t)\<rparr>"

definition updatePrescription ::
  "update_request \<Rightarrow> database \<Rightarrow> (error + prescription_row) \<times> database" where
  "updatePrescription req db =
     (case prescription_update (up_id req) (apply_update_body (up_body req)) db of
        (Inl e, db') \<Rightarrow> (Inl e, db')
      | (Inr prescription, db') \<Rightarrow>
          (Inr prescription,
           (case up_user req of
              None \<Rightarrow> db'
            | Some uid \<Rightarrow>
                createAuditLog
                  \<lparr>audit_userId = uid, audit_action = ''UPDATE_PRESCRIPTION'',
                   audit_entity = ''Prescription'',
                   audit_entityId = Some (rx_id prescription)\<rparr> db')))"

text \<open>
  \<^verbatim>\<open>updatePrescriptionSchema\<close> (routes/prescriptions.routes.ts, lines 36-41): an optional
  \<^verbatim>\<open>status\<close> out of three values and an optional \<^verbatim>\<open>instructions\<close> string. The object
  schema is not strict: a key it does not name does not fail the check.
\<close>

definition updatePrescriptionSchema :: "prescription_update_body \<Rightarrow> bool" where
  "updatePrescriptionSchema b =
     (case ub_status b of
        None \<Rightarrow> True
      | Some s \<Rightarrow> s = ''Active'' \<or> s = ''Completed'' \<or> s = ''Cancelled'')"

text \<open>
  Modelled from the spec: the validation middleware (\<^verbatim>\<open>middlewares/validation.middleware\<close>,
  which the routes import, is not among the sources). The specification has malformed input
  rejected before any write; a request whose body passes the schema of its route goes on to
  the handler as it came. That the body is handed on whole shows in the handlers
  themselves: \<^verbatim>\<open>adjustStock\<close> reads \<^verbatim>\<open>newCost\<close> and \<^verbatim>\<open>newExpiry\<close>, and
  \<^verbatim>\<open>createPrescription\<close> reads \<^verbatim>\<open>paymentMethod\<close>, none of which their schemas name.
\<close>

definition validate ::
  "('b \<Rightarrow> bool) \<Rightarrow> ('r \<Rightarrow> 'b) \<Rightarrow> ('r \<Rightarrow> database \<Rightarrow> (error + 'a) \<times> database)
     \<Rightarrow> 'r \<Rightarrow> database \<Rightarrow> (error + 'a) \<times> database" where
  "validate schema body handler req db =
     (if schema (body req) then handler req db else (Inl ValidationError, db))"

text \<open>The route \<^verbatim>\<open>PUT /:id\<close> of routes/prescriptions.routes.ts (lines 55-60).\<close>

definition put_prescription ::
  "update_request \<Rightarrow> database \<Rightarrow> (error + prescription_row) \<times> database" where
  "put_prescription = validate updatePrescriptionSchema up_body updatePrescription"

section \<open>adjustStock and updateMedication\<close>

record adjust_request =
  as_id :: uuid
  as_quantity :: int
  as_type :: string
  as_newCost :: "money option"
  as_newExpiry :: "datetime option"
  as_user :: "uuid option"
  as_now :: datetime

text \<open>
  Lines 187-217 of pharmacy.controller.ts: the expense and the cash-flow transaction of a
  restock. \<^verbatim>\<open>newCost ? ... : ...\<close> takes the stored cost price when \<^verbatim>\<open>newCost\<close> is
  absent or zero; \<^verbatim>\<open>req.user!.userId\<close> throws when the request has no user.
\<close>

definition record_restock ::
  "adjust_request \<Rightarrow> stock_row \<Rightarrow> database \<Rightarrow> (error + unit) \<times> database" where
  "record_restock req medicationRow db =
     (if as_type req = ''add'' \<and> as_quantity req > 0 then
        (let costPerUnit =
               (case as_newCost req of
                  None \<Rightarrow> js_Number (costPrice medicationRow)
                | Some c \<Rightarrow>
                    if c \<noteq> 0 then js_Number c else js_Number (costPrice medicationRow));
             totalCost = js_mul costPerUnit (of_int (as_quantity req)) in
         if totalCost > 0 then
           (case as_user req of
              None \<Rightarrow> (Inl TypeError, db)
            | Some uid \<Rightarrow>
                (case expense_create
                        (\<lambda>i. \<lparr>exp_id = i, exp_category = ''INVENTORY'', exp_amount = totalCost,
                              exp_date = as_now req, exp_createdBy = uid\<rparr>) db of
                   (Inl e, db1) \<Rightarrow> (Inl e, db1)
                 | (Inr _, db1) \<Rightarrow>
                     (case transaction_create
                             (\<lambda>i. \<lparr>txn_id = i, txn_type = ''EXPENSE'', txn_category = ''PHARMACY'',
                                   txn_amount = totalCost,
                                   txn_referenceId = Some (stock_id medicationRow),
                                   txn_referenceType = Some ''PharmacyStock'',
                                   txn_paymentMethod = None,
                                   txn_createdBy = uid,
                                   txn_patientId = None\<rparr>) db1 of
                        (Inl e, db2) \<Rightarrow> (Inl e, db2)
                      | (Inr _, db2) \<Rightarrow> (Inr (), db2))))
         else (Inr (), db))
      else (Inr (), db))"

text \<open>
  The handler (lines 153-246). Its writes go to \<^verbatim>\<open>prisma\<close> one after the other, outside
  any transaction: what was written before a throw stays written.
\<close>

definition adjustStock :: "adjust_request \<Rightarrow> database \<Rightarrow> (error + stock_row) \<times> database" where
  "adjustStock req db =
     (case pharmacyStock_findUnique (as_id req) db of
        None \<Rightarrow> (Inl AdjustNotFound, db)
      | Some medicationRow \<Rightarrow>
          (let newStock =
                 (if as_type req = ''add'' then currentStock medicationRow + as_quantity req
                  else currentStock medicationRow - as_quantity req) in
           if newStock < 0 then (Inl AdjustInsufficient, db)
           else
             (case pharmacyStock_update (as_id req)
                     (\<lambda>r. r\<lparr>currentStock := newStock,
                            costPrice :=
                              (if as_type req = ''add'' then
                                 (case as_newCost req of None \<Rightarrow> costPrice r | Some c \<Rightarrow> c)
                               else costPrice r),
                            expiryDate :=
                              (if as_type req = ''add'' then
                                 (case as_newExpiry req of None \<Rightarrow> expiryDate r | Some d \<Rightarrow> Some d)
                               else expiryDate r)\<rparr>) db of
                (Inl e, db1) \<Rightarrow> (Inl e, db1)
              | (Inr updated, db1) \<Rightarrow>
                  (case record_restock req medicationRow db1 of
                     (Inl e, db2) \<Rightarrow> (Inl e, db2)
                   | (Inr _, db2) \<Rightarrow>
                       (Inr updated,
                        (case as_user req of
                           None \<Rightarrow> db2
                         | Some uid \<Rightarrow>
                             createAuditLog
                               \<lparr>audit_userId = uid, audit_action = ''ADJUST_STOCK'',
                                audit_entity = ''PharmacyStock'',
                                audit_entityId = Some (stock_id medicationRow)\<rparr> db2))))))"

text \<open>
  \<^verbatim>\<open>updateMedication\<close> (lines 117-151): the one handler that changes the prices of an
  existing stock row.
\<close>

record medication_update_request =
  um_id :: uuid
  um_medicationName :: "string option"
  um_minimumStock :: "int option"
  um_costPrice :: "money option"
  um_sellingPrice :: "money option"
  um_expiryDate :: "datetime option"
  um_user :: "uuid option"

definition updateMedication ::
  "medication_update_request \<Rightarrow> database \<Rightarrow> (error + stock_row) \<times> database" where
  "updateMedication req db =
     (case pharmacyStock_update (um_id req)
             (\<lambda>r. r\<lparr>medicationName :=
                      (case um_medicationName req of None \<Rightarrow> medicationName r | Some n \<Rightarrow> n),
                    minimumStock :=
                      (case um_minimumStock req of None \<Rightarrow> minimumStock r | Some n \<Rightarrow> n),
                    costPrice := (case um_costPrice req of None \<Rightarrow> costPrice r | Some c \<Rightarrow> c),
                    sellingPrice :=
                      (case um_sellingPrice req of None \<Rightarrow> sellingPrice r | Some c \<Rightarrow> c),
                    expiryDate :=
                      (case um_expiryDate req of None \<Rightarrow> expiryDate r | Some d \<Rightarrow> Some d)\<rparr>) db of
        (Inl e, db') \<Rightarrow> (Inl e, db')
      | (Inr medicationRow, db') \<Rightarrow>
          (Inr medicationRow,
           (case um_user req of
              None \<Rightarrow> db'
            | Some uid \<Rightarrow>
                createAuditLog
                  \<lparr>audit_userId = uid, audit_action = ''UPDATE_MEDICATION'',
                   audit_entity = ''PharmacyStock'',
                   audit_entityId = Some (stock_id medicationRow)\<rparr> db')))"

section \<open>Vocabulary of the properties\<close>

text \<open>The stock table after one deduction: the row with the given id gets the new level.\<close>

definition deduct :: "uuid \<Rightarrow> int \<Rightarrow> stock_row list \<Rightarrow> stock_row list" where
  "deduct i c rows = map (\<lambda>r. if stock_id r = i then r\<lparr>currentStock := c\<rparr> else r) rows"

text \<open>
  What a fulfilled line looks like: the prescription \<open>p\<close> and the transaction \<open>t\<close> written
  for the requested item \<open>m\<close>, priced from the stock table of \<open>db\<close>.
\<close>

definition item_paid ::
  "database \<Rightarrow> medication_item \<Rightarrow> prescription_row \<Rightarrow> transaction_row \<Rightarrow> bool" where
  "item_paid db m p t =
     (case pharmacyStock_findFirst (medication m) db of
        None \<Rightarrow> False
      | Some s \<Rightarrow>
          rx_medication p = medication m \<and> rx_quantity p = quantity m
          \<and> rx_status p = ''Completed'' \<and> rx_paymentStatus p = ''Paid''
          \<and> rx_transactionId p = Some (txn_id t)
          \<and> rx_totalAmount p = Some (computed_product (sellingPrice s) (quantity m))
          \<and> txn_type t = ''SALE'' \<and> txn_category t = ''PHARMACY''
          \<and> txn_amount t = computed_product (sellingPrice s) (quantity m)
          \<and> txn_referenceId t = Some (rx_id p))"

text \<open>
  The operations that move stock, and a run of them one after the other. A failed operation
  leaves whatever database it leaves.
\<close>

datatype operation =
    AdjustStock adjust_request
  | CreatePrescription create_request
  | FulfillPrescription fulfill_request

fun run_operation :: "operation \<Rightarrow> database \<Rightarrow> database" where
  "run_operation (AdjustStock r) db = snd (adjustStock r db)"
| "run_operation (CreatePrescription r) db = snd (createPrescription r db)"
| "run_operation (FulfillPrescription r) db = snd (fulfillPrescription r db)"

definition run_operations :: "operation list \<Rightarrow> database \<Rightarrow> database" where
  "run_operations ops db = foldl (\<lambda>d operation. run_operation operation d) db ops"

definition stock_nonneg :: "database \<Rightarrow> bool" where
  "stock_nonneg db = list_all (\<lambda>s. 0 \<le> currentStock s) (pharmacy_stock db)"

text \<open>
  The vocabulary of the contract of \<^verbatim>\<open>createPrescription\<close>. \<open>references_resolve\<close>: the
  request has a user, and the user, the prescriber and the patient the batch will refer to
  are rows of their tables, so that no insert of the batch is refused by a foreign key.
  \<open>missing_anchor\<close> and \<open>invalid_visit\<close>: the two anchor conditions. \<open>requested_before\<close>:
  what the items before position \<open>k\<close> ask of one medication. \<open>unknown_medication_at\<close> and
  \<open>exceeds_stock_at\<close>: item \<open>k\<close> names no stock row; item \<open>k\<close> asks more than its row
  holds once the earlier items of the batch are taken off. \<open>first_offender\<close>: the first such
  position, and \<open>error_at\<close> the error that names it.
\<close>

definition references_resolve :: "create_request \<Rightarrow> database \<Rightarrow> bool" where
  "references_resolve req db =
     ((case cp_user req of None \<Rightarrow> False | Some uid \<Rightarrow> uid \<in> set (users db))
      \<and> cp_prescribedBy req \<in> set (users db)
      \<and> (if truthy (cp_visitId req)
         then (case visit_findUnique (or_default (cp_visitId req) []) db of
                 None \<Rightarrow> True
               | Some v \<Rightarrow> visit_patientId v \<in> set (patients db))
         else \<not> truthy (cp_patientId req)
              \<or> or_default (cp_patientId req) [] \<in> set (patients db)))"

definition missing_anchor :: "create_request \<Rightarrow> bool" where
  "missing_anchor req = (\<not> truthy (cp_visitId req) \<and> \<not> truthy (cp_patientId req))"

definition invalid_visit :: "create_request \<Rightarrow> database \<Rightarrow> bool" where
  "invalid_visit req db =
     (truthy (cp_visitId req) \<and> visit_findUnique (or_default (cp_visitId req) []) db = None)"






text \<open>The references the writes of the loop depend on.\<close>

definition loop_refs :: "create_request \<Rightarrow> uuid \<Rightarrow> uuid \<Rightarrow> database \<Rightarrow> bool" where
  "loop_refs req vid pid db =
     (or_default (cp_user req) [] \<in> set (users db) \<and> pid \<in> set (patients db)
      \<and> vid \<in> visit_id ` set (visits db) \<and> cp_prescribedBy req \<in> set (users db))"

text \<open>The selling price a medication name resolves to in a database (0 when it has no row).\<close>

definition selling_price :: "database \<Rightarrow> string \<Rightarrow> money" where
  "selling_price db name =
     (case pharmacyStock_findFirst name db of None \<Rightarrow> 0 | Some s \<Rightarrow> sellingPrice s)"

text \<open>
  The cost price the specification gives a restock: \<^verbatim>\<open>newCost\<close> when the request has one,
  the stored cost price of the medication otherwise.
\<close>

definition effective_cost :: "adjust_request \<Rightarrow> stock_row \<Rightarrow> money" where
  "effective_cost req m = (case as_newCost req of None \<Rightarrow> costPrice m | Some c \<Rightarrow> c)"

section \<open>Sample data\<close>

definition stock_A :: stock_row where
  "stock_A = \<lparr>stock_id = ''s1'', medicationName = ''A'', currentStock = 10, minimumStock = 2,
              costPrice = 1, sellingPrice = 2, expiryDate = None\<rparr>"

definition stock_B :: stock_row where
  "stock_B = \<lparr>stock_id = ''s2'', medicationName = ''B'', currentStock = 3, minimumStock = 2,
              costPrice = 1, sellingPrice = 3, expiryDate = None\<rparr>"

definition db_AB :: database where
  "db_AB = \<lparr>users = [''u1'', ''u2''], patients = [''p1''], visits = [],
            pharmacy_stock = [stock_A, stock_B], transactions = [], prescriptions = [],
            expenses = [], audit_logs = []\<rparr>"

definition item :: "string \<Rightarrow> int \<Rightarrow> medication_item" where
  "item name q = \<lparr>medication = name, dosage = ''1 tablet'', frequency = ''daily'',
                  duration = ''5 days'', quantity = q, instructions = None\<rparr>"

definition batch :: "medication_item list \<Rightarrow> create_request" where
  "batch ms = \<lparr>cp_visitId = None, cp_patientId = Some ''p1'', cp_prescribedBy = ''u2'',
               cp_medications = ms, cp_paymentMethod = None, cp_user = Some ''u1'',
               cp_now = 7\<rparr>"

definition sample_operations :: "operation list" where
  "sample_operations =
     [CreatePrescription (batch [item ''A'' 4, item ''B'' 3]),
      AdjustStock \<lparr>as_id = ''s1'', as_quantity = 7, as_type = ''subtract'', as_newCost = None,
                   as_newExpiry = None, as_user = Some ''u1'', as_now = 8\<rparr>,
      CreatePrescription (batch [item ''B'' 1]),
      AdjustStock \<lparr>as_id = ''s2'', as_quantity = 20, as_type = ''add'', as_newCost = Some 2,
                   as_newExpiry = None, as_user = Some ''u1'', as_now = 9\<rparr>]"





text \<open>
  The scenario of the specification: Paracetamol, 10 in stock, sold at 0.50; with it a visit
  and a prescription of 4 that is still pending.
\<close>

definition db_P :: database where
  "db_P = \<lparr>users = [''u1'', ''u2''], patients = [''p1''],
           visits = [\<lparr>visit_id = ''v1'', visit_patientId = ''p1'', visit_doctorId = ''u2'',
                      visit_visitDate = 1, visit_chiefComplaint = ''Fever'',
                      visit_status = ''In Progress''\<rparr>],
           pharmacy_stock = [\<lparr>stock_id = ''s3'', medicationName = ''Paracetamol'',
                              currentStock = 10, minimumStock = 5, costPrice = 1 / 4,
                              sellingPrice = 1 / 2, expiryDate = None\<rparr>],
           transactions = [],
           prescriptions = [\<lparr>rx_id = ''r1'', rx_visitId = ''v1'', rx_prescribedBy = ''u2'',
                             rx_medication = ''Paracetamol'', rx_dosage = ''500mg'',
                             rx_frequency = ''daily'', rx_duration = ''4 days'', rx_quantity = 4,
                             rx_instructions = None, rx_status = ''Active'',
                             rx_totalAmount = None, rx_paymentStatus = ''Pending'',
                             rx_paidAt = None, rx_transactionId = None\<rparr>],
           expenses = [], audit_logs = []\<rparr>"

definition fulfill_r1 :: fulfill_request where
  "fulfill_r1 = \<lparr>fp_id = ''r1'', fp_paymentMethod = None, fp_user = Some ''u1'', fp_now = 9\<rparr>"

definition restock_A :: adjust_request where
  "restock_A = \<lparr>as_id = ''s1'', as_quantity = 50, as_type = ''add'', as_newCost = Some 2,
                as_newExpiry = None, as_user = Some ''u1'', as_now = 9\<rparr>"

text \<open>A medication that cost nothing, restocked without a new cost.\<close>

definition db_gift :: database where
  "db_gift = db_AB\<lparr>pharmacy_stock := [stock_A\<lparr>costPrice := 0\<rparr>]\<rparr>"

definition restock_gift :: adjust_request where
  "restock_gift = restock_A\<lparr>as_newCost := None\<rparr>"

text \<open>
  A medication of the seed data (\<^verbatim>\<open>seed.ts\<close>): Omeprazole 20mg, bought at 0.7 and sold at
  1.2; and a restock of 100 units at a new cost of 0.07.
\<close>

definition stock_O :: stock_row where
  "stock_O = \<lparr>stock_id = ''s4'', medicationName = ''Omeprazole 20mg'', currentStock = 200,
              minimumStock = 40, costPrice = 7 / 10, sellingPrice = 6 / 5, expiryDate = None\<rparr>"

definition db_O :: database where
  "db_O = db_AB\<lparr>pharmacy_stock := [stock_O]\<rparr>"

definition restock_cents :: adjust_request where
  "restock_cents = restock_A\<lparr>as_quantity := 100, as_newCost := Some (7 / 100)\<rparr>"

text \<open>A request that renames medication A to the name of another row.\<close>

definition rename_A_to_B :: medication_update_request where
  "rename_A_to_B = \<lparr>um_id = ''s1'', um_medicationName = Some ''B'', um_minimumStock = None,
                    um_costPrice = None, um_sellingPrice = None, um_expiryDate = None,
                    um_user = Some ''u1''\<rparr>"

text \<open>
  A restock by a request whose user id has no row (a token that outlived its user), and a
  paid prescription with the requests that reopen it and fulfill it again.
\<close>

definition restock_stale :: adjust_request where
  "restock_stale = restock_A\<lparr>as_user := Some ''u9''\<rparr>"

definition db_paid :: database where
  "db_paid = snd (createPrescription (batch [item ''A'' 4]) db_AB)"

definition reset_payment :: update_request where
  "reset_payment =
     \<lparr>up_id = ''0'',
      up_body = \<lparr>ub_status = None, ub_instructions = None, ub_quantity = None,
                 ub_totalAmount = None, ub_paymentStatus = Some ''Pending'', ub_paidAt = None,
                 ub_transactionId = None\<rparr>,
      up_user = Some ''u1''\<rparr>"

definition fulfill_again :: fulfill_request where
  "fulfill_again = \<lparr>fp_id = ''0'', fp_paymentMethod = None, fp_user = Some ''u1'', fp_now = 9\<rparr>"

section \<open>What the ORM operations and the loop do\<close>

lemma to_double_zero: "to_double 0 = 0"
  by (simp add: to_double_def)

lemma computed_product_zero: "computed_product 0 n = 0"
  by (simp add: computed_product_def js_Number_def js_mul_def to_double_zero)

lemma length_le_foldr_max: "i \<in> set ids \<Longrightarrow> length i \<le> foldr (\<lambda>i n. max (length i) n) ids 0"
  by (induction ids) auto

lemma fresh_id_notin: "fresh_id ids \<notin> set ids"
proof
  assume "fresh_id ids \<in> set ids"
  then have "length (fresh_id ids) \<le> foldr (\<lambda>i n. max (length i) n) ids 0"
    by (rule length_le_foldr_max)
  then show False by (simp add: fresh_id_def)
qed

lemma map_if_id_absent: "i \<notin> key ` set xs \<Longrightarrow> map (\<lambda>r. if key r = i then f r else r) xs = xs"
  by (induction xs) auto

lemma find_append_fresh:
  "i \<notin> key ` set xs \<Longrightarrow> find (\<lambda>r. key r = i) (xs @ [x]) = (if key x = i then Some x else None)"
  by (induction xs) auto

lemma transaction_create_Inr:
  assumes "transaction_create mk db = (Inr t, db')"
  shows "t = mk (fresh_id (map txn_id (transactions db)))"
    and "db' = db\<lparr>transactions := transactions db @ [t]\<rparr>"
  using assms by (auto simp: transaction_create_def Let_def split: if_splits)

lemma transaction_create_Inl: "transaction_create mk db = (Inl e, db') \<Longrightarrow> db' = db"
  by (auto simp: transaction_create_def Let_def split: if_splits)

lemma prescription_create_Inr:
  assumes "prescription_create mk db = (Inr p, db')"
  shows "p = mk (fresh_id (map rx_id (prescriptions db)))"
    and "db' = db\<lparr>prescriptions := prescriptions db @ [p]\<rparr>"
  using assms by (auto simp: prescription_create_def Let_def split: if_splits)

lemma pharmacyStock_update_Inr:
  assumes "pharmacyStock_update i f db = (Inr r, db')"
  shows "db' = db\<lparr>pharmacy_stock := map (\<lambda>r. if stock_id r = i then f r else r) (pharmacy_stock db)\<rparr>"
  using assms by (auto simp: pharmacyStock_update_def split: option.splits if_splits)

lemma transaction_update_fresh:
  assumes "txn_id t = i" "i \<notin> txn_id ` set ts" "transactions db = ts @ [t]"
  shows "transaction_update i f db = (Inr (f t), db\<lparr>transactions := ts @ [f t]\<rparr>)"
  using assms by (simp add: transaction_update_def find_append_fresh map_if_id_absent)

lemma fulfil_item_Inr:
  assumes "fulfil_item req vid pid med db = (Inr p, db')"
  shows "\<exists>s t. pharmacyStock_findFirst (medication med) db = Some s
           \<and> quantity med \<le> currentStock s
           \<and> db' = db\<lparr>pharmacy_stock := deduct (stock_id s) (currentStock s - quantity med) (pharmacy_stock db),
                      transactions := transactions db @ [t],
                      prescriptions := prescriptions db @ [p]\<rparr>
           \<and> txn_id t = fresh_id (map txn_id (transactions db))
           \<and> txn_type t = ''SALE'' \<and> txn_category t = ''PHARMACY''
           \<and> txn_amount t = computed_product (sellingPrice s) (quantity med)
           \<and> txn_referenceId t = Some (rx_id p)
           \<and> rx_id p = fresh_id (map rx_id (prescriptions db))
           \<and> rx_visitId p = vid
           \<and> rx_medication p = medication med \<and> rx_quantity p = quantity med
           \<and> rx_status p = ''Completed'' \<and> rx_paymentStatus p = ''Paid''
           \<and> rx_totalAmount p = Some (computed_product (sellingPrice s) (quantity med))
           \<and> rx_transactionId p = Some (txn_id t)"
proof -
  from assms obtain s where s: "pharmacyStock_findFirst (medication med) db = Some s"
    by (auto simp: fulfil_item_def split: option.splits)
  from assms s have q: "quantity med \<le> currentStock s"
    by (auto simp: fulfil_item_def split: if_splits)
  let ?f = "\<lambda>r. r\<lparr>currentStock := currentStock s - quantity med\<rparr>"
  from assms s q obtain u db1 where u: "pharmacyStock_update (stock_id s) ?f db = (Inr u, db1)"
    by (auto simp: fulfil_item_def split: prod.splits sum.splits)
  have db1: "db1 = db\<lparr>pharmacy_stock := deduct (stock_id s) (currentStock s - quantity med) (pharmacy_stock db)\<rparr>"
    using pharmacyStock_update_Inr[OF u] by (simp add: deduct_def)
  let ?amount = "js_mul (js_Number (sellingPrice s)) (of_int (quantity med))"
  let ?mkt = "\<lambda>i. \<lparr>txn_id = i, txn_type = ''SALE'', txn_category = ''PHARMACY'',
                               txn_amount = ?amount, txn_referenceId = None,
                               txn_referenceType = Some ''Prescription'',
                               txn_paymentMethod = Some (or_default (cp_paymentMethod req) ''Cash''),
                               txn_createdBy = or_default (cp_user req) [],
                               txn_patientId = Some pid\<rparr>"
  from assms s q u obtain t0 db2 where t0: "transaction_create ?mkt db1 = (Inr t0, db2)"
    by (auto simp: fulfil_item_def Let_def split: prod.splits sum.splits)
  note t0' = transaction_create_Inr[OF t0]
  let ?mkp = "\<lambda>i. \<lparr>rx_id = i, rx_visitId = vid,
                                    rx_prescribedBy = cp_prescribedBy req,
                                    rx_medication = medication med, rx_dosage = dosage med,
                                    rx_frequency = frequency med, rx_duration = duration med,
                                    rx_quantity = quantity med,
                                    rx_instructions = instructions med,
                                    rx_status = ''Completed'',
                                    rx_totalAmount = Some ?amount,
                                    rx_paymentStatus = ''Paid'',
                                    rx_paidAt = Some (cp_now req),
                                    rx_transactionId = Some (txn_id t0)\<rparr>"
  from assms s q u t0 obtain p0 db3 where p0: "prescription_create ?mkp db2 = (Inr p0, db3)"
    by (auto simp: fulfil_item_def Let_def split: prod.splits sum.splits)
  note p0' = prescription_create_Inr[OF p0]
  let ?g = "\<lambda>r. r\<lparr>txn_referenceId := Some (rx_id p0)\<rparr>"
  have id0: "txn_id t0 = fresh_id (map txn_id (transactions db))"
    using t0'(1) db1 by simp
  have tr3: "transactions db3 = transactions db @ [t0]"
    using p0'(2) t0'(2) db1 by simp
  have "txn_id t0 \<notin> txn_id ` set (transactions db)"
    using fresh_id_notin[of "map txn_id (transactions db)"] id0 by simp
  then have upd: "transaction_update (txn_id t0) ?g db3 = (Inr (?g t0), db3\<lparr>transactions := transactions db @ [?g t0]\<rparr>)"
    using tr3 by (intro transaction_update_fresh) auto
  from assms s q u t0 p0 upd have res: "p = p0" "db' = db3\<lparr>transactions := transactions db @ [?g t0]\<rparr>"
    by (auto simp: fulfil_item_def Let_def split: prod.splits sum.splits)
  have dbeq: "db' = db\<lparr>pharmacy_stock := deduct (stock_id s) (currentStock s - quantity med) (pharmacy_stock db),
                      transactions := transactions db @ [?g t0],
                      prescriptions := prescriptions db @ [p]\<rparr>"
    using res p0'(2) t0'(2) db1 by simp
  show ?thesis
    apply (rule exI[of _ s], rule exI[of _ "?g t0"])
    using s q dbeq id0 res(1) p0'(1) t0'(1) t0'(2) db1 by (simp add: computed_product_def)
qed


lemma find_deduct:
  "find (\<lambda>s. medicationName s = n) (deduct i c rows) =
   map_option (\<lambda>r. if stock_id r = i then r\<lparr>currentStock := c\<rparr> else r)
     (find (\<lambda>s. medicationName s = n) rows)"
  by (induction rows) (auto simp: deduct_def)

lemma item_paid_deduct:
  assumes "pharmacy_stock db1 = deduct i c (pharmacy_stock db)"
  shows "item_paid db1 m p t = item_paid db m p t"
  using assms
  by (auto simp: item_paid_def pharmacyStock_findFirst_def find_deduct split: option.splits)

lemma fulfil_items_Inr:
  assumes "fulfil_items req vid pid meds acc db = (Inr ps, db')"
  shows "\<exists>new ts. ps = acc @ new \<and> length new = length meds \<and> length ts = length meds
           \<and> transactions db' = transactions db @ ts
           \<and> prescriptions db' = prescriptions db @ new
           \<and> users db' = users db \<and> patients db' = patients db \<and> visits db' = visits db
           \<and> expenses db' = expenses db \<and> audit_logs db' = audit_logs db
           \<and> (\<forall>i<length meds. item_paid db (meds ! i) (new ! i) (ts ! i) \<and> rx_visitId (new ! i) = vid)
           \<and> distinct (map txn_id ts)
           \<and> set (map txn_id ts) \<inter> set (map txn_id (transactions db)) = {}"
  using assms
proof (induction meds arbitrary: acc db)
  case Nil
  then show ?case by simp
next
  case (Cons m ms)
  from Cons.prems obtain p db1 where
    step: "fulfil_item req vid pid m db = (Inr p, db1)" and
    rest: "fulfil_items req vid pid ms (acc @ [p]) db1 = (Inr ps, db')"
    by (auto split: prod.splits sum.splits)
  from fulfil_item_Inr[OF step] obtain s t where
    s: "pharmacyStock_findFirst (medication m) db = Some s" and
    db1: "db1 = db\<lparr>pharmacy_stock := deduct (stock_id s) (currentStock s - quantity m) (pharmacy_stock db),
                    transactions := transactions db @ [t],
                    prescriptions := prescriptions db @ [p]\<rparr>" and
    tid: "txn_id t = fresh_id (map txn_id (transactions db))" and
    paid: "item_paid db m p t" and vis: "rx_visitId p = vid"
    by (auto simp: item_paid_def)
  from Cons.IH[OF rest] obtain new ts where
    ih: "ps = (acc @ [p]) @ new" "length new = length ms" "length ts = length ms"
        "transactions db' = transactions db1 @ ts"
        "prescriptions db' = prescriptions db1 @ new"
        "users db' = users db1" "patients db' = patients db1" "visits db' = visits db1"
        "expenses db' = expenses db1" "audit_logs db' = audit_logs db1"
        "\<forall>i<length ms. item_paid db1 (ms ! i) (new ! i) (ts ! i) \<and> rx_visitId (new ! i) = vid"
        "distinct (map txn_id ts)"
        "set (map txn_id ts) \<inter> set (map txn_id (transactions db1)) = {}"
    by blast
  have st1: "pharmacy_stock db1 = deduct (stock_id s) (currentStock s - quantity m) (pharmacy_stock db)"
    using db1 by simp
  have items: "\<forall>i<length (m # ms). item_paid db ((m # ms) ! i) ((p # new) ! i) ((t # ts) ! i)
                   \<and> rx_visitId ((p # new) ! i) = vid"
  proof (intro allI impI)
    fix i assume "i < length (m # ms)"
    then show "item_paid db ((m # ms) ! i) ((p # new) ! i) ((t # ts) ! i)
                   \<and> rx_visitId ((p # new) ! i) = vid"
      using paid vis ih(11) item_paid_deduct[OF st1] by (cases i) auto
  qed
  have fresh: "txn_id t \<notin> set (map txn_id (transactions db))"
    using fresh_id_notin[of "map txn_id (transactions db)"] tid by simp
  have tr1: "transactions db1 = transactions db @ [t]" using db1 by simp
  have dist: "distinct (map txn_id (t # ts))"
    using ih(12) ih(13) tr1 by auto
  have disj: "set (map txn_id (t # ts)) \<inter> set (map txn_id (transactions db)) = {}"
    using ih(13) tr1 fresh by auto
  show ?case
    apply (rule exI[of _ "p # new"], rule exI[of _ "t # ts"])
    using ih(1-10) db1 items dist disj by simp
qed

lemmas case_beta = case_prod_beta sum.case_eq_if option.case_eq_if

lemma prisma_transaction_Inl: "prisma_transaction body db = (Inl e, db') \<Longrightarrow> db' = db"
  by (auto simp: prisma_transaction_def split: prod.splits sum.splits)

lemma prisma_transaction_Inr:
  "prisma_transaction body db = (Inr r, db') \<Longrightarrow> body db = (Inr r, db')"
  by (auto simp: prisma_transaction_def split: prod.splits sum.splits)

lemma createAuditLog_frame:
  "users (createAuditLog a db) = users db" "patients (createAuditLog a db) = patients db"
  "visits (createAuditLog a db) = visits db"
  "pharmacy_stock (createAuditLog a db) = pharmacy_stock db"
  "transactions (createAuditLog a db) = transactions db"
  "prescriptions (createAuditLog a db) = prescriptions db"
  "expenses (createAuditLog a db) = expenses db"
  by (simp_all add: createAuditLog_def)

lemma visit_create_frame:
  "users (snd (visit_create mk db)) = users db"
  "patients (snd (visit_create mk db)) = patients db"
  "pharmacy_stock (snd (visit_create mk db)) = pharmacy_stock db"
  "transactions (snd (visit_create mk db)) = transactions db"
  "prescriptions (snd (visit_create mk db)) = prescriptions db"
  "expenses (snd (visit_create mk db)) = expenses db"
  "audit_logs (snd (visit_create mk db)) = audit_logs db"
  by (simp_all add: visit_create_def Let_def)

lemma transaction_create_frame:
  "users (snd (transaction_create mk db)) = users db"
  "patients (snd (transaction_create mk db)) = patients db"
  "visits (snd (transaction_create mk db)) = visits db"
  "pharmacy_stock (snd (transaction_create mk db)) = pharmacy_stock db"
  "prescriptions (snd (transaction_create mk db)) = prescriptions db"
  "expenses (snd (transaction_create mk db)) = expenses db"
  "audit_logs (snd (transaction_create mk db)) = audit_logs db"
  by (simp_all add: transaction_create_def Let_def)

lemma transaction_update_frame:
  "users (snd (transaction_update i f db)) = users db"
  "patients (snd (transaction_update i f db)) = patients db"
  "visits (snd (transaction_update i f db)) = visits db"
  "pharmacy_stock (snd (transaction_update i f db)) = pharmacy_stock db"
  "prescriptions (snd (transaction_update i f db)) = prescriptions db"
  "expenses (snd (transaction_update i f db)) = expenses db"
  "audit_logs (snd (transaction_update i f db)) = audit_logs db"
  by (simp_all add: transaction_update_def split: option.splits)

lemma prescription_create_frame:
  "users (snd (prescription_create mk db)) = users db"
  "patients (snd (prescription_create mk db)) = patients db"
  "visits (snd (prescription_create mk db)) = visits db"
  "pharmacy_stock (snd (prescription_create mk db)) = pharmacy_stock db"
  "transactions (snd (prescription_create mk db)) = transactions db"
  "expenses (snd (prescription_create mk db)) = expenses db"
  "audit_logs (snd (prescription_create mk db)) = audit_logs db"
  by (simp_all add: prescription_create_def Let_def)

lemma prescription_update_frame:
  "users (snd (prescription_update i f db)) = users db"
  "patients (snd (prescription_update i f db)) = patients db"
  "visits (snd (prescription_update i f db)) = visits db"
  "pharmacy_stock (snd (prescription_update i f db)) = pharmacy_stock db"
  "transactions (snd (prescription_update i f db)) = transactions db"
  "expenses (snd (prescription_update i f db)) = expenses db"
  "audit_logs (snd (prescription_update i f db)) = audit_logs db"
  by (simp_all add: prescription_update_def split: option.splits)

lemma expense_create_frame:
  "users (snd (expense_create mk db)) = users db"
  "patients (snd (expense_create mk db)) = patients db"
  "visits (snd (expense_create mk db)) = visits db"
  "pharmacy_stock (snd (expense_create mk db)) = pharmacy_stock db"
  "transactions (snd (expense_create mk db)) = transactions db"
  "prescriptions (snd (expense_create mk db)) = prescriptions db"
  "audit_logs (snd (expense_create mk db)) = audit_logs db"
  by (simp_all add: expense_create_def Let_def)

lemma find_None_map_if: "find (\<lambda>s. key s = i) xs = None \<Longrightarrow> map (\<lambda>r. if key r = i then f r else r) xs = xs"
  by (induction xs) (auto split: if_splits)

lemma pharmacyStock_update_frame:
  "users (snd (pharmacyStock_update i f db)) = users db"
  "patients (snd (pharmacyStock_update i f db)) = patients db"
  "visits (snd (pharmacyStock_update i f db)) = visits db"
  "transactions (snd (pharmacyStock_update i f db)) = transactions db"
  "prescriptions (snd (pharmacyStock_update i f db)) = prescriptions db"
  "expenses (snd (pharmacyStock_update i f db)) = expenses db"
  "audit_logs (snd (pharmacyStock_update i f db)) = audit_logs db"
  by (simp_all add: pharmacyStock_update_def split: option.splits)

lemma pharmacyStock_update_stock:
  "\<forall>r. medicationName (f r) = medicationName r \<Longrightarrow>
     pharmacy_stock (snd (pharmacyStock_update i f db))
       = map (\<lambda>r. if stock_id r = i then f r else r) (pharmacy_stock db)"
  by (simp add: pharmacyStock_update_def find_None_map_if split: option.splits)

lemmas frame = createAuditLog_frame visit_create_frame transaction_create_frame
  transaction_update_frame prescription_create_frame prescription_update_frame
  expense_create_frame pharmacyStock_update_frame pharmacyStock_update_stock

section \<open>Rollback of a failed batch\<close>

text \<open>
  C1. When \<^verbatim>\<open>createPrescription\<close> fails, whatever the reason, the database after the call is
  the database before it: every stock level is what it was, also for the items the batch had
  already deducted, and no visit, transaction or prescription of the batch remains.
\<close>

theorem createPrescription_rollback:
  "createPrescription req db = (Inl e, db') \<Longrightarrow> db' = db"
  by (auto simp: createPrescription_def prisma_transaction_def split: prod.splits sum.splits)

text \<open>
  The batch of the specification: 5 of A (10 in stock), then 100 of B (3 in stock). Inside
  the transaction A had gone down to 5 when B was refused; after the call it is 10 again.
\<close>

theorem createPrescription_rollback_witness:
  "createPrescription (batch [item ''A'' 5, item ''B'' 100]) db_AB
     = (Inl (InsufficientStock ''B'' 3 100), db_AB)
   \<and> map currentStock
       (pharmacy_stock (snd (createPrescription_tx (batch [item ''A'' 5, item ''B'' 100]) db_AB)))
     = [5, 3]
   \<and> map currentStock (pharmacy_stock db_AB) = [10, 3]"
proof -
  have e: "fst (createPrescription (batch [item ''A'' 5, item ''B'' 100]) db_AB)
             = Inl (InsufficientStock ''B'' 3 100)"
    by code_simp
  have "createPrescription (batch [item ''A'' 5, item ''B'' 100]) db_AB
          = (Inl (InsufficientStock ''B'' 3 100),
             snd (createPrescription (batch [item ''A'' 5, item ''B'' 100]) db_AB))"
    using e by (metis prod.collapse)
  from createPrescription_rollback[OF this] e
  have "createPrescription (batch [item ''A'' 5, item ''B'' 100]) db_AB
          = (Inl (InsufficientStock ''B'' 3 100), db_AB)"
    by (metis prod.collapse)
  moreover have "map currentStock
       (pharmacy_stock (snd (createPrescription_tx (batch [item ''A'' 5, item ''B'' 100]) db_AB)))
     = [5, 3]"
    by code_simp
  moreover have "map currentStock (pharmacy_stock db_AB) = [10, 3]"
    by code_simp
  ultimately show ?thesis by blast
qed

section \<open>Stock never goes negative\<close>

lemma stock_nonneg_update:
  assumes "list_all (\<lambda>s. 0 \<le> currentStock s) rows" "\<forall>r. 0 \<le> currentStock (f r)"
  shows "list_all (\<lambda>s. 0 \<le> currentStock s) (map (\<lambda>r. if stock_id r = i then f r else r) rows)"
  using assms by (induction rows) auto

lemma fulfil_item_stock:
  assumes "fulfil_item req vid pid m db = (Inr p, db1)"
  shows "\<exists>s. pharmacyStock_findFirst (medication m) db = Some s \<and> quantity m \<le> currentStock s
     \<and> pharmacy_stock db1 = deduct (stock_id s) (currentStock s - quantity m) (pharmacy_stock db)"
proof -
  from fulfil_item_Inr[OF assms] show ?thesis
    by (elim exE conjE) (rule exI, simp)
qed

lemma fulfil_items_stock_nonneg:
  assumes "fulfil_items req vid pid meds acc db = (Inr ps, db')" "stock_nonneg db"
  shows "stock_nonneg db'"
  using assms
proof (induction meds arbitrary: acc db)
  case Nil
  then show ?case by simp
next
  case (Cons m ms)
  from Cons.prems(1) obtain p db1 where
    step: "fulfil_item req vid pid m db = (Inr p, db1)" and
    rest: "fulfil_items req vid pid ms (acc @ [p]) db1 = (Inr ps, db')"
    by (auto split: prod.splits sum.splits)
  from fulfil_item_stock[OF step] obtain s :: stock_row where
    "quantity m \<le> currentStock s"
    "pharmacy_stock db1 = deduct (stock_id s) (currentStock s - quantity m) (pharmacy_stock db)"
    by blast
  with Cons.prems(2) have "stock_nonneg db1"
    by (simp add: stock_nonneg_def deduct_def stock_nonneg_update)
  from Cons.IH[OF rest this] show ?case .
qed

lemma ensure_visit_stock: "pharmacy_stock (snd (ensure_visit req db)) = pharmacy_stock db"
  by (simp add: ensure_visit_def case_beta frame)

lemma createPrescription_stock_nonneg:
  assumes "stock_nonneg db"
  shows "stock_nonneg (snd (createPrescription req db))"
proof (cases "prisma_transaction (createPrescription_tx req) db")
  case (Pair r db')
  show ?thesis
  proof (cases r)
    case (Inl e)
    with Pair assms prisma_transaction_Inl[of "createPrescription_tx req" db e db']
    show ?thesis by (simp add: createPrescription_def)
  next
    case (Inr ps)
    with Pair have body: "createPrescription_tx req db = (Inr ps, db')"
      using prisma_transaction_Inr[of "createPrescription_tx req" db ps db'] by simp
    then obtain vid and v :: visit_row where
      loop: "fulfil_items req vid (visit_patientId v) (cp_medications req) []
               (snd (ensure_visit req db)) = (Inr ps, db')"
      by (auto simp: createPrescription_tx_def split: prod.splits sum.splits option.splits)
    from assms have "stock_nonneg (snd (ensure_visit req db))"
      by (simp add: stock_nonneg_def ensure_visit_stock)
    from fulfil_items_stock_nonneg[OF loop this] have "stock_nonneg db'" .
    with Pair Inr show ?thesis
      by (simp add: createPrescription_def stock_nonneg_def frame split: option.splits)
  qed
qed

lemma fulfillPrescription_stock_nonneg:
  assumes "stock_nonneg db"
  shows "stock_nonneg (snd (fulfillPrescription req db))"
  using assms
  by (simp add: fulfillPrescription_def fulfillPrescription_tx_def prisma_transaction_def
      Let_def case_beta frame stock_nonneg_def stock_nonneg_update)

lemma record_restock_stock:
  "pharmacy_stock (snd (record_restock req m db)) = pharmacy_stock db"
  by (simp add: record_restock_def Let_def case_beta frame)

lemma adjustStock_stock_nonneg:
  assumes "stock_nonneg db"
  shows "stock_nonneg (snd (adjustStock req db))"
  using assms
  by (simp add: adjustStock_def Let_def case_beta frame record_restock_stock
      stock_nonneg_def stock_nonneg_update)

lemma run_operation_stock_nonneg: "stock_nonneg db \<Longrightarrow> stock_nonneg (run_operation operation db)"
  by (cases operation)
    (simp_all add: adjustStock_stock_nonneg createPrescription_stock_nonneg
      fulfillPrescription_stock_nonneg)

lemma run_operations_stock_nonneg: "stock_nonneg db \<Longrightarrow> stock_nonneg (run_operations ops db)"
  unfolding run_operations_def
  by (induction ops arbitrary: db) (simp_all add: run_operation_stock_nonneg)

text \<open>
  C2. From a database whose stock levels are all non-negative, after each operation of any
  sequence of \<^verbatim>\<open>adjustStock\<close>, \<^verbatim>\<open>createPrescription\<close> and \<^verbatim>\<open>fulfillPrescription\<close> calls,
  succeeded or failed, every stock level is still non-negative.
\<close>

theorem stock_never_negative:
  "stock_nonneg db \<Longrightarrow> k \<le> length ops \<Longrightarrow> stock_nonneg (run_operations (take k ops) db)"
  by (rule run_operations_stock_nonneg)

theorem stock_never_negative_witness:
  "stock_nonneg db_AB \<and> (3::nat) \<le> length sample_operations
   \<and> stock_nonneg (run_operations (take 3 sample_operations) db_AB)
   \<and> map currentStock (pharmacy_stock (run_operations (take 3 sample_operations) db_AB)) = [6, 0]"
proof -
  have h1: "stock_nonneg db_AB" by code_simp
  have h2: "(3::nat) \<le> length sample_operations" by code_simp
  have "map currentStock (pharmacy_stock (run_operations (take 3 sample_operations) db_AB)) = [6, 0]"
    by code_simp
  with h1 h2 stock_never_negative[OF h1 h2] show ?thesis by blast
qed

section \<open>The outcome of a batch\<close>


lemma fulfil_item_insufficient:
  "pharmacyStock_findFirst (medication m) db = Some s \<Longrightarrow> currentStock s < quantity m
     \<Longrightarrow> fulfil_item req vid pid m db
          = (Inl (InsufficientStock (medication m) (currentStock s) (quantity m)), db)"
  by (simp add: fulfil_item_def)

lemma find_Some_id:
  "find P xs = Some s \<Longrightarrow> find (\<lambda>r. key r = key s) xs \<noteq> None"
  by (induction xs) (auto split: if_splits)

lemma pharmacyStock_update_ok:
  "pharmacyStock_findFirst n db = Some s \<Longrightarrow> \<forall>r. medicationName (f r) = medicationName r
     \<Longrightarrow> \<not> isl (fst (pharmacyStock_update (stock_id s) f db))"
  using find_Some_id[of "\<lambda>s. medicationName s = n" "pharmacy_stock db" s stock_id]
  by (auto simp: pharmacyStock_update_def pharmacyStock_findFirst_def split: option.splits)

lemma transaction_create_fst:
  "fst (transaction_create mk db) =
     (let row = mk (fresh_id (map txn_id (transactions db))) in
      if txn_createdBy row \<notin> set (users db) then Inl (ForeignKeyViolation ''createdBy'')
      else if (case txn_patientId row of None \<Rightarrow> False | Some p \<Rightarrow> p \<notin> set (patients db))
        then Inl (ForeignKeyViolation ''patientId'')
      else Inr row)"
  by (simp add: transaction_create_def Let_def)

lemma transaction_create_transactions:
  "transactions (snd (transaction_create mk db)) =
     (if isl (fst (transaction_create mk db)) then transactions db
      else transactions db @ [projr (fst (transaction_create mk db))])"
  by (simp add: transaction_create_def Let_def)

lemma prescription_create_fst:
  "fst (prescription_create mk db) =
     (let row = mk (fresh_id (map rx_id (prescriptions db))) in
      if rx_visitId row \<notin> set (map visit_id (visits db)) then Inl (ForeignKeyViolation ''visitId'')
      else if rx_prescribedBy row \<notin> set (users db) then Inl (ForeignKeyViolation ''prescribedBy'')
      else Inr row)"
  by (simp add: prescription_create_def Let_def)

lemma transaction_update_isl:
  "isl (fst (transaction_update i f db)) = (find (\<lambda>t. txn_id t = i) (transactions db) = None)"
  by (simp add: transaction_update_def split: option.splits)

lemma fulfil_item_succeeds:
  assumes "pharmacyStock_findFirst (medication m) db = Some s" "quantity m \<le> currentStock s"
    "loop_refs req vid pid db"
  shows "\<not> isl (fst (fulfil_item req vid pid m db))"
  using assms
    pharmacyStock_update_ok[OF assms(1),
      of "\<lambda>r. r\<lparr>currentStock := currentStock s - quantity m\<rparr>"]
  by (auto simp: fulfil_item_def loop_refs_def Let_def case_beta frame
      transaction_create_fst prescription_create_fst transaction_update_isl
      transaction_create_transactions find_None_iff)


lemma fulfil_item_ok:
  assumes "pharmacyStock_findFirst (medication m) db = Some s" "quantity m \<le> currentStock s"
    "loop_refs req vid pid db"
  obtains p db1 where "fulfil_item req vid pid m db = (Inr p, db1)"
    "pharmacy_stock db1 = deduct (stock_id s) (currentStock s - quantity m) (pharmacy_stock db)"
    "loop_refs req vid pid db1"
proof -
  from fulfil_item_succeeds[OF assms]
  obtain p db1 where r: "fulfil_item req vid pid m db = (Inr p, db1)"
    by (cases "fulfil_item req vid pid m db") (auto simp: isl_def intro: sum.exhaust)
  from fulfil_item_Inr[OF r] assms(1) obtain t :: transaction_row where
    db1: "db1 = db\<lparr>pharmacy_stock := deduct (stock_id s) (currentStock s - quantity m) (pharmacy_stock db),
                    transactions := transactions db @ [t],
                    prescriptions := prescriptions db @ [p]\<rparr>"
    by auto
  from db1 assms(3) have "loop_refs req vid pid db1"
    by (simp add: loop_refs_def)
  with r db1 that show thesis by simp
qed










lemma or_default_Some_self: "or_default (Some u) [] = u"
  by (simp add: or_default_def)



lemma find_visit_mem: "find (\<lambda>v. visit_id v = i) vs = Some v \<Longrightarrow> i \<in> visit_id ` set vs"
  by (induction vs) (auto split: if_splits)

lemma createPrescription_tx_loop:
  assumes "references_resolve req db" "\<not> missing_anchor req" "\<not> invalid_visit req db"
  obtains vid pid dbv where
    "createPrescription_tx req db = fulfil_items req vid pid (cp_medications req) [] dbv"
    "loop_refs req vid pid dbv"
    "pharmacy_stock dbv = pharmacy_stock db" "users dbv = users db" "patients dbv = patients db"
    "transactions dbv = transactions db" "prescriptions dbv = prescriptions db"
    "truthy (cp_visitId req) \<Longrightarrow> dbv = db"
proof (cases "truthy (cp_visitId req)")
  case True
  from assms(1) obtain uid where uid: "cp_user req = Some uid" "uid \<in> set (users db)"
    by (auto simp: references_resolve_def split: option.splits)
  from True assms(3) obtain v :: visit_row where
    v: "visit_findUnique (or_default (cp_visitId req) []) db = Some v"
    by (auto simp: invalid_visit_def)
  with assms(1) True have pv: "visit_patientId v \<in> set (patients db)"
    by (simp add: references_resolve_def)
  have tx: "createPrescription_tx req db =
      fulfil_items req (or_default (cp_visitId req) []) (visit_patientId v) (cp_medications req) [] db"
    using True v by (simp add: createPrescription_tx_def ensure_visit_def)
  have refs: "loop_refs req (or_default (cp_visitId req) []) (visit_patientId v) db"
    using uid pv v assms(1) find_visit_mem[of "or_default (cp_visitId req) []" "visits db" v]
    by (simp add: loop_refs_def or_default_Some_self references_resolve_def visit_findUnique_def)
  from that[OF tx refs] show thesis by simp
next
  case False
  from assms(1) obtain uid where uid: "cp_user req = Some uid" "uid \<in> set (users db)"
    by (auto simp: references_resolve_def split: option.splits)
  from False assms(2) have tp: "truthy (cp_patientId req)"
    by (simp add: missing_anchor_def)
  with False assms(1) have pp: "or_default (cp_patientId req) [] \<in> set (patients db)"
    by (simp add: references_resolve_def)
  define v where "v = \<lparr>visit_id = fresh_id (map visit_id (visits db)),
                           visit_patientId = or_default (cp_patientId req) [],
                           visit_doctorId = uid, visit_visitDate = cp_now req,
                           visit_chiefComplaint = ''Direct Prescription'',
                           visit_status = ''Completed''\<rparr>"
  define dbv where "dbv = db\<lparr>visits := visits db @ [v]\<rparr>"
  have ev: "ensure_visit req db = (Inr (visit_id v), dbv)"
    using False tp uid pp by (simp add: ensure_visit_def visit_create_def Let_def v_def dbv_def)
  have "visit_id v \<notin> visit_id ` set (visits db)"
    using fresh_id_notin[of "map visit_id (visits db)"] by (simp add: v_def)
  then have fv: "visit_findUnique (visit_id v) dbv = Some v"
    by (simp add: visit_findUnique_def dbv_def find_append_fresh)
  have tx: "createPrescription_tx req db =
      fulfil_items req (visit_id v) (visit_patientId v) (cp_medications req) [] dbv"
    using ev fv by (simp add: createPrescription_tx_def)
  have refs: "loop_refs req (visit_id v) (visit_patientId v) dbv"
    using uid pp assms(1)
    by (simp add: loop_refs_def or_default_Some_self references_resolve_def dbv_def v_def)
  from that[OF tx refs] False show thesis by (simp add: dbv_def)
qed


lemma createPrescription_of_tx_Inl:
  "createPrescription_tx req db = (Inl e, dbx) \<Longrightarrow> createPrescription req db = (Inl e, db)"
  by (simp add: createPrescription_def prisma_transaction_def)







section \<open>Repeated and duplicated requests\<close>

lemma createPrescription_of_tx_Inr:
  "createPrescription_tx req db = (Inr ps, dbl) \<Longrightarrow>
     fst (createPrescription req db) = Inr ps
     \<and> users (snd (createPrescription req db)) = users dbl
     \<and> patients (snd (createPrescription req db)) = patients dbl
     \<and> visits (snd (createPrescription req db)) = visits dbl
     \<and> pharmacy_stock (snd (createPrescription req db)) = pharmacy_stock dbl
     \<and> transactions (snd (createPrescription req db)) = transactions dbl
     \<and> prescriptions (snd (createPrescription req db)) = prescriptions dbl
     \<and> expenses (snd (createPrescription req db)) = expenses dbl"
  by (simp add: createPrescription_def prisma_transaction_def frame split: option.splits)





text \<open>
  Two items for the same medication that make up the whole batch: the second is checked
  against what the first has left, and the error names that remainder.
\<close>

lemma duplicate_pair_refused:
  assumes "references_resolve req db" "\<not> missing_anchor req" "\<not> invalid_visit req db"
    and "cp_medications req = [m1, m2]" "medication m2 = medication m1"
    and "pharmacyStock_findFirst (medication m1) db = Some s"
    and "quantity m1 \<le> currentStock s" "quantity m2 \<le> currentStock s"
      "currentStock s < quantity m1 + quantity m2"
  shows "createPrescription req db =
           (Inl (InsufficientStock (medication m1) (currentStock s - quantity m1) (quantity m2)),
            db)"
proof -
  from createPrescription_tx_loop[OF assms(1-3)] obtain vid pid dbv where
    l: "createPrescription_tx req db = fulfil_items req vid pid (cp_medications req) [] dbv"
      "loop_refs req vid pid dbv" "pharmacy_stock dbv = pharmacy_stock db"
    by metis
  have f0: "pharmacyStock_findFirst (medication m1) dbv = Some s"
    using assms(6) l(3) by (simp add: pharmacyStock_findFirst_def)
  from fulfil_item_ok[OF f0 assms(7) l(2)] obtain p db1 where
    ok: "fulfil_item req vid pid m1 dbv = (Inr p, db1)"
      "pharmacy_stock db1
         = deduct (stock_id s) (currentStock s - quantity m1) (pharmacy_stock dbv)"
    by metis
  have f1: "pharmacyStock_findFirst (medication m2) db1
              = Some (s\<lparr>currentStock := currentStock s - quantity m1\<rparr>)"
    using f0 ok(2) assms(5) by (simp add: pharmacyStock_findFirst_def find_deduct)
  have "fulfil_item req vid pid m2 db1 =
          (Inl (InsufficientStock (medication m2) (currentStock s - quantity m1) (quantity m2)), db1)"
    using fulfil_item_insufficient[OF f1] assms(9) by simp
  with ok(1) l(1) assms(4,5) have "createPrescription_tx req db =
          (Inl (InsufficientStock (medication m1) (currentStock s - quantity m1) (quantity m2)), db1)"
    by simp
  then show ?thesis by (rule createPrescription_of_tx_Inl)
qed








section \<open>Sales recorded by fulfillment\<close>

lemma filter_key_fresh:
  "i \<notin> key ` set xs \<Longrightarrow> key x = i \<Longrightarrow> filter (\<lambda>r. key r = i) (xs @ [x]) = [x]"
  by (induction xs) auto

lemma filter_key_distinct:
  "distinct (map key xs) \<Longrightarrow> i < length xs \<Longrightarrow> filter (\<lambda>r. key r = key (xs ! i)) xs = [xs ! i]"
proof (induction xs arbitrary: i)
  case Nil
  then show ?case by simp
next
  case (Cons x xs)
  show ?case
  proof (cases i)
    case 0
    from Cons.prems have "\<forall>r\<in>set xs. key r \<noteq> key x"
      by (metis distinct.simps(2) image_eqI list.simps(9) set_map)
    then have "filter (\<lambda>r. key r = key x) xs = []"
      by (simp add: filter_empty_conv)
    with 0 show ?thesis by simp
  next
    case (Suc j)
    with Cons.prems have "key x \<noteq> key (xs ! j)" by auto
    with Suc Cons show ?thesis by simp
  qed
qed

lemma filter_key_new:
  assumes "distinct (map key ts)" "set (map key ts) \<inter> set (map key old) = {}" "i < length ts"
  shows "filter (\<lambda>r. key r = key (ts ! i)) (old @ ts) = [ts ! i]"
proof -
  have "key (ts ! i) \<in> set (map key ts)" using assms(3) by simp
  with assms(2) have "key (ts ! i) \<notin> key ` set old" by auto
  then have "\<forall>r\<in>set old. key r \<noteq> key (ts ! i)"
    by (metis image_eqI)
  then have "filter (\<lambda>r. key r = key (ts ! i)) old = []"
    by (simp add: filter_empty_conv)
  with filter_key_distinct[OF assms(1,3)] show ?thesis by simp
qed

lemma createPrescription_Inr_tx:
  assumes "createPrescription req db = (Inr ps, db')"
  obtains dbl where "createPrescription_tx req db = (Inr ps, dbl)"
    "users db' = users dbl" "patients db' = patients dbl" "visits db' = visits dbl"
    "pharmacy_stock db' = pharmacy_stock dbl" "transactions db' = transactions dbl"
    "prescriptions db' = prescriptions dbl" "expenses db' = expenses dbl"
proof -
  obtain r dbl where rl: "createPrescription_tx req db = (r, dbl)"
    by (cases "createPrescription_tx req db")
  with assms have r: "r = Inr ps"
    by (cases r) (simp_all add: createPrescription_def prisma_transaction_def)
  from createPrescription_of_tx_Inr[of req db ps dbl] rl r assms that[of dbl]
  show thesis by simp
qed

lemma createPrescription_tx_Inr:
  assumes "createPrescription_tx req db = (Inr ps, dbl)"
  obtains vid and v :: visit_row and dbv where "ensure_visit req db = (Inr vid, dbv)"
    "visit_findUnique vid dbv = Some v"
    "fulfil_items req vid (visit_patientId v) (cp_medications req) [] dbv = (Inr ps, dbl)"
  using assms
  by (auto simp: createPrescription_tx_def split: prod.splits sum.splits option.splits)

lemma ensure_visit_frame:
  "users (snd (ensure_visit req db)) = users db"
  "patients (snd (ensure_visit req db)) = patients db"
  "pharmacy_stock (snd (ensure_visit req db)) = pharmacy_stock db"
  "transactions (snd (ensure_visit req db)) = transactions db"
  "prescriptions (snd (ensure_visit req db)) = prescriptions db"
  "expenses (snd (ensure_visit req db)) = expenses db"
  "audit_logs (snd (ensure_visit req db)) = audit_logs db"
  by (simp_all add: ensure_visit_def case_beta frame)

lemma item_paid_stock_only:
  "pharmacy_stock db1 = pharmacy_stock db \<Longrightarrow> item_paid db1 m p t = item_paid db m p t"
  by (simp add: item_paid_def pharmacyStock_findFirst_def)

lemma item_paid_amount:
  "item_paid db m p t \<Longrightarrow> txn_amount t = computed_product (selling_price db (medication m)) (quantity m)"
  by (auto simp: item_paid_def selling_price_def split: option.splits)

lemma createPrescription_sales:
  assumes "createPrescription req db = (Inr ps, db')"
  shows "\<exists>ts. length ps = length (cp_medications req) \<and> length ts = length (cp_medications req)
           \<and> transactions db' = transactions db @ ts
           \<and> prescriptions db' = prescriptions db @ ps
           \<and> (\<forall>i<length (cp_medications req).
                 item_paid db (cp_medications req ! i) (ps ! i) (ts ! i)
                 \<and> filter (\<lambda>t. txn_id t = txn_id (ts ! i)) (transactions db') = [ts ! i])
           \<and> sum_list (map txn_amount ts)
               = (\<Sum>m\<leftarrow>cp_medications req. computed_product (selling_price db (medication m)) (quantity m))"
proof -
  let ?meds = "cp_medications req"
  from createPrescription_Inr_tx[OF assms] obtain dbl where
    tx: "createPrescription_tx req db = (Inr ps, dbl)" and
    tabs: "transactions db' = transactions dbl" "prescriptions db' = prescriptions dbl"
    by metis
  from createPrescription_tx_Inr[OF tx] obtain vid and v :: visit_row and dbv where
    ev: "ensure_visit req db = (Inr vid, dbv)" and
    loop: "fulfil_items req vid (visit_patientId v) ?meds [] dbv = (Inr ps, dbl)"
    by metis
  have dbv: "pharmacy_stock dbv = pharmacy_stock db" "transactions dbv = transactions db"
    "prescriptions dbv = prescriptions db"
    using ensure_visit_frame[of req db] ev by simp_all
  from fulfil_items_Inr[OF loop] obtain new :: "prescription_row list"
    and ts :: "transaction_row list" where
    n: "ps = [] @ new" "length new = length ?meds" "length ts = length ?meds"
      "transactions dbl = transactions dbv @ ts" "prescriptions dbl = prescriptions dbv @ new"
      "\<forall>i<length ?meds. item_paid dbv (?meds ! i) (new ! i) (ts ! i)
           \<and> rx_visitId (new ! i) = vid"
      "distinct (map txn_id ts)"
      "set (map txn_id ts) \<inter> set (map txn_id (transactions dbv)) = {}"
    by blast
  have paid: "\<forall>i<length ?meds. item_paid db (?meds ! i) (ps ! i) (ts ! i)"
    using n(1,6) item_paid_stock_only[OF dbv(1)] by simp
  have one: "\<forall>i<length ?meds.
      filter (\<lambda>t. txn_id t = txn_id (ts ! i)) (transactions db') = [ts ! i]"
    using filter_key_new[OF n(7,8)] n(3,4) tabs(1) by simp
  have "map txn_amount ts
          = map (\<lambda>m. computed_product (selling_price db (medication m)) (quantity m)) ?meds"
    using paid n(3) by (intro nth_equalityI) (auto simp: item_paid_amount)
  then have total: "sum_list (map txn_amount ts)
          = (\<Sum>m\<leftarrow>?meds. computed_product (selling_price db (medication m)) (quantity m))"
    by simp
  show ?thesis
    apply (rule exI[of _ ts])
    using n(1,2,3,4,5) tabs dbv paid one total by simp
qed

lemma prescription_update_Inr:
  assumes "prescription_update i f db = (Inr p, db')"
  shows "\<exists>p0. find (\<lambda>r. rx_id r = i) (prescriptions db) = Some p0 \<and> p = f p0"
    and "db' = db\<lparr>prescriptions := map (\<lambda>r. if rx_id r = i then f r else r) (prescriptions db)\<rparr>"
  using assms by (auto simp: prescription_update_def split: option.splits)

lemma find_Some_mem: "find P xs = Some x \<Longrightarrow> x \<in> set xs \<and> P x"
  by (induction xs) (auto split: if_splits)

lemma fulfillPrescription_sale:
  assumes "fulfillPrescription req db = (Inr (st, t, p), db')"
  shows "\<exists>p0 s. prescription_findUnique (fp_id req) db = Some p0
           \<and> rx_paymentStatus p0 \<noteq> ''Paid''
           \<and> pharmacyStock_findFirst (rx_medication p0) db = Some s
           \<and> transactions db' = transactions db @ [t]
           \<and> filter (\<lambda>x. txn_id x = txn_id t) (transactions db') = [t]
           \<and> txn_type t = ''SALE'' \<and> txn_category t = ''PHARMACY''
           \<and> txn_amount t = computed_product (sellingPrice s) (rx_quantity p0)
           \<and> p \<in> set (prescriptions db') \<and> rx_id p = fp_id req
           \<and> rx_quantity p = rx_quantity p0 \<and> rx_medication p = rx_medication p0
           \<and> (\<forall>r\<in>set (prescriptions db'). rx_id r = fp_id req \<longrightarrow>
                 rx_paymentStatus r = ''Paid'' \<and> rx_transactionId r = Some (txn_id t)
                 \<and> rx_totalAmount r = Some (computed_product (sellingPrice s) (rx_quantity p0)))"
proof -
  from assms obtain uid where uid: "fp_user req = Some uid"
    by (cases "fp_user req") (simp_all add: fulfillPrescription_def)
  from assms uid obtain p0 :: prescription_row where
    p0: "prescription_findUnique (fp_id req) db = Some p0"
    by (cases "prescription_findUnique (fp_id req) db") (simp_all add: fulfillPrescription_def)
  from assms uid p0 have np: "rx_paymentStatus p0 \<noteq> ''Paid''"
    and nc: "rx_status p0 \<noteq> ''Cancelled''"
    by (auto simp: fulfillPrescription_def split: if_splits)
  from assms uid p0 np nc obtain s :: stock_row where
    s: "pharmacyStock_findFirst (rx_medication p0) db = Some s"
    by (cases "pharmacyStock_findFirst (rx_medication p0) db")
      (simp_all add: fulfillPrescription_def)
  from assms uid p0 np nc s have q: "\<not> currentStock s < rx_quantity p0"
    by (auto simp: fulfillPrescription_def split: if_splits)
  let ?amount = "js_mul (js_Number (sellingPrice s)) (of_int (rx_quantity p0))"
  let ?body = "fulfillPrescription_tx req uid p0 (visit_findUnique (rx_visitId p0) db) s ?amount"
  obtain r dbl where rl: "?body db = (r, dbl)" by (cases "?body db")
  from assms uid p0 np nc s q rl have r: "r = Inr (st, t, p)"
    by (cases r) (simp_all add: fulfillPrescription_def prisma_transaction_def Let_def)
  from assms uid p0 np nc s q rl r have tabs:
    "transactions db' = transactions dbl" "prescriptions db' = prescriptions dbl"
    by (auto simp: fulfillPrescription_def prisma_transaction_def Let_def frame)
  let ?f = "\<lambda>r. r\<lparr>currentStock := currentStock s - rx_quantity p0\<rparr>"
  obtain r1 db1 where u: "pharmacyStock_update (stock_id s) ?f db = (r1, db1)"
    by (cases "pharmacyStock_update (stock_id s) ?f db")
  from rl r u obtain v :: visit_row where v: "visit_findUnique (rx_visitId p0) db = Some v"
    by (cases "visit_findUnique (rx_visitId p0) db")
      (auto simp: fulfillPrescription_tx_def split: sum.splits)
  let ?mk = "\<lambda>i. \<lparr>txn_id = i, txn_type = ''SALE'', txn_category = ''PHARMACY'',
                             txn_amount = ?amount,
                             txn_referenceId = Some (rx_id p0),
                             txn_referenceType = Some ''Prescription'',
                             txn_paymentMethod =
                               Some (case fp_paymentMethod req of None \<Rightarrow> ''Cash'' | Some m \<Rightarrow> m),
                             txn_createdBy = uid,
                             txn_patientId = Some (visit_patientId v)\<rparr>"
  obtain r2 db2 where c: "transaction_create ?mk db1 = (r2, db2)"
    by (cases "transaction_create ?mk db1")
  from rl r u v c have r2: "r2 = Inr t"
    by (cases r2) (auto simp: fulfillPrescription_tx_def split: sum.splits prod.splits)
  let ?g = "\<lambda>r. r\<lparr>rx_totalAmount := Some ?amount,
                                   rx_paymentStatus := ''Paid'',
                                   rx_paidAt := Some (fp_now req),
                                   rx_transactionId := Some (txn_id t),
                                   rx_status := ''Completed''\<rparr>"
  from rl r u v c r2 have pu: "prescription_update (fp_id req) ?g db2 = (Inr p, dbl)"
    by (auto simp: fulfillPrescription_tx_def split: sum.splits prod.splits)
  have tr1: "transactions db1 = transactions db" "prescriptions db1 = prescriptions db"
    using u pharmacyStock_update_frame[of "stock_id s" ?f db] by simp_all
  note t' = transaction_create_Inr[OF c[unfolded r2]]
  have tid: "txn_id t = fresh_id (map txn_id (transactions db))"
    using t'(1) tr1 by simp
  have tr2: "transactions db2 = transactions db @ [t]" "prescriptions db2 = prescriptions db"
    using t'(2) tr1 by simp_all
  note pu' = prescription_update_Inr[OF pu]
  have trl: "transactions dbl = transactions db @ [t]"
    using pu'(2) tr2 by simp
  have prl: "prescriptions dbl
               = map (\<lambda>r. if rx_id r = fp_id req then ?g r else r) (prescriptions db)"
    using pu'(2) tr2 by simp
  from pu'(1) tr2 p0 have pp: "p = ?g p0"
    by (simp add: prescription_findUnique_def)
  from p0 have p0m: "p0 \<in> set (prescriptions db)" "rx_id p0 = fp_id req"
    using find_Some_mem[of "\<lambda>p. rx_id p = fp_id req" "prescriptions db" p0]
    by (simp_all add: prescription_findUnique_def)
  have pin: "p \<in> set (prescriptions db')"
    using p0m pp prl tabs(2) by (auto simp: image_iff intro!: bexI[of _ p0])
  have "txn_id t \<notin> txn_id ` set (transactions db)"
    using fresh_id_notin[of "map txn_id (transactions db)"] tid by simp
  then have "filter (\<lambda>x. txn_id x = txn_id t) (transactions db @ [t]) = [t]"
    by (rule filter_key_fresh) simp
  then have one: "filter (\<lambda>x. txn_id x = txn_id t) (transactions db') = [t]"
    using tabs(1) trl by simp
  have fields: "txn_type t = ''SALE''" "txn_category t = ''PHARMACY''" "txn_amount t = ?amount"
    using t'(1) by simp_all
  have rows: "\<forall>r\<in>set (prescriptions db'). rx_id r = fp_id req \<longrightarrow>
                 rx_paymentStatus r = ''Paid'' \<and> rx_transactionId r = Some (txn_id t)
                 \<and> rx_totalAmount r = Some ?amount"
    using tabs(2) prl by auto
  show ?thesis
    apply (rule exI[of _ p0], rule exI[of _ s])
    using p0 np s tabs(1) trl one fields pin pp p0m(2) rows by (simp add: computed_product_def)
qed

lemma updateMedication_ledger:
  "transactions (snd (updateMedication r db)) = transactions db
   \<and> prescriptions (snd (updateMedication r db)) = prescriptions db"
  by (simp add: updateMedication_def case_beta frame)

text \<open>
  The medication name is unique (\<^verbatim>\<open>pharmacy_stock_medicationName_key\<close>): renaming a row to
  the name of another row is refused and changes nothing.
\<close>

lemma updateMedication_rename_refused:
  "updateMedication rename_A_to_B db_AB = (Inl (UniqueViolation ''medicationName''), db_AB)"
  by code_simp

text \<open>
  C3, as the code has it. A successful \<^verbatim>\<open>createPrescription\<close> writes, for each requested
  item in order, one prescription and one transaction: the prescription is Paid and carries
  the id of that transaction, which is the id of exactly one row of the transaction table;
  the transaction is a SALE of category PHARMACY; its amount and the prescription's
  \<^verbatim>\<open>totalAmount\<close> are both the product \<^verbatim>\<open>Number(sellingPrice) * quantity\<close> as the handler
  computes it, in double arithmetic, from the selling price the medication had in the
  database the call started from; the amounts of the batch add up to the sum of those
  computed products. A successful \<^verbatim>\<open>fulfillPrescription\<close> does the same for the one
  prescription it updates. And \<^verbatim>\<open>updateMedication\<close>, the handler that changes selling
  prices, leaves the transaction and prescription tables as they are.
\<close>

theorem paid_prescription_sale:
  "(createPrescription creq db = (Inr ps, db1) \<longrightarrow>
      (\<exists>ts. length ps = length (cp_medications creq) \<and> length ts = length (cp_medications creq)
         \<and> transactions db1 = transactions db @ ts
         \<and> prescriptions db1 = prescriptions db @ ps
         \<and> (\<forall>i<length (cp_medications creq).
               item_paid db (cp_medications creq ! i) (ps ! i) (ts ! i)
               \<and> filter (\<lambda>t. txn_id t = txn_id (ts ! i)) (transactions db1) = [ts ! i])
         \<and> sum_list (map txn_amount ts)
             = (\<Sum>m\<leftarrow>cp_medications creq.
                  computed_product (selling_price db (medication m)) (quantity m))))
   \<and> (fulfillPrescription freq db = (Inr (st, t, p), db2) \<longrightarrow>
        p \<in> set (prescriptions db2) \<and> rx_id p = fp_id freq
        \<and> rx_paymentStatus p = ''Paid'' \<and> rx_transactionId p = Some (txn_id t)
        \<and> transactions db2 = transactions db @ [t]
        \<and> filter (\<lambda>x. txn_id x = txn_id t) (transactions db2) = [t]
        \<and> txn_type t = ''SALE'' \<and> txn_category t = ''PHARMACY''
        \<and> txn_amount t = computed_product (selling_price db (rx_medication p)) (rx_quantity p)
        \<and> rx_totalAmount p = Some (computed_product (selling_price db (rx_medication p)) (rx_quantity p)))
   \<and> transactions (snd (updateMedication mreq dbx)) = transactions dbx
   \<and> prescriptions (snd (updateMedication mreq dbx)) = prescriptions dbx"
proof (intro conjI impI)
  assume "createPrescription creq db = (Inr ps, db1)"
  then show "\<exists>ts. length ps = length (cp_medications creq)
         \<and> length ts = length (cp_medications creq)
         \<and> transactions db1 = transactions db @ ts
         \<and> prescriptions db1 = prescriptions db @ ps
         \<and> (\<forall>i<length (cp_medications creq).
               item_paid db (cp_medications creq ! i) (ps ! i) (ts ! i)
               \<and> filter (\<lambda>t. txn_id t = txn_id (ts ! i)) (transactions db1) = [ts ! i])
         \<and> sum_list (map txn_amount ts)
             = (\<Sum>m\<leftarrow>cp_medications creq.
                  computed_product (selling_price db (medication m)) (quantity m))"
    by (rule createPrescription_sales)
next
  assume a: "fulfillPrescription freq db = (Inr (st, t, p), db2)"
  from fulfillPrescription_sale[OF a] obtain p0 :: prescription_row and s :: stock_row where
    f: "pharmacyStock_findFirst (rx_medication p0) db = Some s"
      "transactions db2 = transactions db @ [t]"
      "filter (\<lambda>x. txn_id x = txn_id t) (transactions db2) = [t]"
      "txn_type t = ''SALE''" "txn_category t = ''PHARMACY''"
      "txn_amount t = computed_product (sellingPrice s) (rx_quantity p0)"
      "p \<in> set (prescriptions db2)" "rx_id p = fp_id freq"
      "rx_quantity p = rx_quantity p0" "rx_medication p = rx_medication p0"
      "\<forall>r\<in>set (prescriptions db2). rx_id r = fp_id freq \<longrightarrow>
                 rx_paymentStatus r = ''Paid'' \<and> rx_transactionId r = Some (txn_id t)
                 \<and> rx_totalAmount r = Some (computed_product (sellingPrice s) (rx_quantity p0))"
    by blast
  have sp: "selling_price db (rx_medication p) = sellingPrice s"
    using f(1,10) by (simp add: selling_price_def)
  from f(7,8,11) have pp: "rx_paymentStatus p = ''Paid''" "rx_transactionId p = Some (txn_id t)"
    "rx_totalAmount p = Some (computed_product (sellingPrice s) (rx_quantity p0))"
    by blast+
  show "p \<in> set (prescriptions db2)" by (rule f(7))
  show "rx_id p = fp_id freq" by (rule f(8))
  show "rx_paymentStatus p = ''Paid''" by (rule pp(1))
  show "rx_transactionId p = Some (txn_id t)" by (rule pp(2))
  show "transactions db2 = transactions db @ [t]" by (rule f(2))
  show "filter (\<lambda>x. txn_id x = txn_id t) (transactions db2) = [t]" by (rule f(3))
  show "txn_type t = ''SALE''" by (rule f(4))
  show "txn_category t = ''PHARMACY''" by (rule f(5))
  show "txn_amount t = computed_product (selling_price db (rx_medication p)) (rx_quantity p)"
    using f(6,9) sp by simp
  show "rx_totalAmount p = Some (computed_product (selling_price db (rx_medication p)) (rx_quantity p))"
    using pp(3) f(9) sp by simp
next
  show "transactions (snd (updateMedication mreq dbx)) = transactions dbx"
    using updateMedication_ledger by blast
  show "prescriptions (snd (updateMedication mreq dbx)) = prescriptions dbx"
    using updateMedication_ledger by blast
qed

text \<open>
  The scenario of the specification: 4 Paracetamol at 0.50 make a sale of 2.00, by either
  operation; there the computed product is the exact one.
\<close>

theorem paid_prescription_sale_witness:
  "\<not> isl (fst (createPrescription (batch [item ''Paracetamol'' 4]) db_P))
   \<and> (\<exists>ts. transactions (snd (createPrescription (batch [item ''Paracetamol'' 4]) db_P))
              = transactions db_P @ ts
          \<and> sum_list (map txn_amount ts) = 2)
   \<and> \<not> isl (fst (fulfillPrescription fulfill_r1 db_P))
   \<and> txn_amount (fst (snd (projr (fst (fulfillPrescription fulfill_r1 db_P))))) = 2
   \<and> rx_totalAmount (snd (snd (projr (fst (fulfillPrescription fulfill_r1 db_P))))) = Some 2"
proof -
  let ?c = "createPrescription (batch [item ''Paracetamol'' 4]) db_P"
  let ?f = "fulfillPrescription fulfill_r1 db_P"
  have c1: "\<not> isl (fst ?c)" by code_simp
  then have c2: "?c = (Inr (projr (fst ?c)), snd ?c)"
    by (cases ?c; cases "fst ?c") auto
  have s: "(\<Sum>m\<leftarrow>cp_medications (batch [item ''Paracetamol'' 4]).
              computed_product (selling_price db_P (medication m)) (quantity m)) = 2"
    by code_simp
  have f1: "\<not> isl (fst ?f)" by code_simp
  then have f2: "?f = (Inr (fst (projr (fst ?f)), fst (snd (projr (fst ?f))),
                           snd (snd (projr (fst ?f)))), snd ?f)"
    by (cases ?f; cases "fst ?f") auto
  have v: "computed_product (selling_price db_P (rx_medication (snd (snd (projr (fst ?f))))))
             (rx_quantity (snd (snd (projr (fst ?f))))) = 2"
    by code_simp
  note inst = paid_prescription_sale[of "batch [item ''Paracetamol'' 4]" db_P
      "projr (fst ?c)" "snd ?c" fulfill_r1 "fst (projr (fst ?f))" "fst (snd (projr (fst ?f)))"
      "snd (snd (projr (fst ?f)))" "snd ?f"]
  from inst c2 s have a: "\<exists>ts. transactions (snd ?c) = transactions db_P @ ts
          \<and> sum_list (map txn_amount ts) = 2"
    by metis
  from inst f2 v have b: "txn_amount (fst (snd (projr (fst ?f)))) = 2"
    "rx_totalAmount (snd (snd (projr (fst ?f)))) = Some 2"
    by metis+
  from c1 a f1 b show ?thesis by blast
qed

text \<open>
  C3 as the specification words it does not hold: the recorded amount is not always the
  quantity times the selling price. 3 Omeprazole at the seed price of 1.2 are recorded, in
  the transaction and in the prescription, as \<^verbatim>\<open>1.2 * 3\<close> of double arithmetic, which is
  3.5999999999999996 and not 3.6.
\<close>

theorem sale_amount_is_rounded:
  "\<not> isl (fst (createPrescription (batch [item ''Omeprazole 20mg'' 3]) db_O))
   \<and> selling_price db_O ''Omeprazole 20mg'' = 6 / 5
   \<and> map txn_amount (transactions (snd (createPrescription (batch [item ''Omeprazole 20mg'' 3]) db_O)))
       = [to_double (35999999999999996 / 10 ^ 16)]
   \<and> map rx_totalAmount
        (prescriptions (snd (createPrescription (batch [item ''Omeprazole 20mg'' 3]) db_O)))
       = [Some (to_double (35999999999999996 / 10 ^ 16))]
   \<and> to_double (35999999999999996 / 10 ^ 16) = 2026619832316723 / 562949953421312
   \<and> to_double (35999999999999996 / 10 ^ 16) \<noteq> 3 * selling_price db_O ''Omeprazole 20mg''"
  by code_simp

section \<open>The visit of a direct prescription\<close>

lemma truthy_Some: "truthy v \<Longrightarrow> \<exists>s. v = Some s \<and> s \<noteq> [] \<and> or_default v d = s"
  by (cases v) (auto simp: truthy_def or_default_def)

lemma ensure_visit_created:
  assumes "ensure_visit req db = (Inr vid, dbv)" "\<not> truthy (cp_visitId req)"
  shows "\<exists>uid pid. cp_user req = Some uid \<and> cp_patientId req = Some pid
           \<and> vid = fresh_id (map visit_id (visits db))
           \<and> dbv = db\<lparr>visits := visits db @
                 [\<lparr>visit_id = fresh_id (map visit_id (visits db)), visit_patientId = pid,
                   visit_doctorId = uid, visit_visitDate = cp_now req,
                   visit_chiefComplaint = ''Direct Prescription'',
                   visit_status = ''Completed''\<rparr>]\<rparr>"
proof -
  from assms have tp: "truthy (cp_patientId req)"
    by (auto simp: ensure_visit_def split: if_splits)
  from truthy_Some[OF tp, of "[]"] obtain pid where
    pid: "cp_patientId req = Some pid" "or_default (cp_patientId req) [] = pid"
    by blast
  from assms tp obtain uid where uid: "cp_user req = Some uid"
    by (cases "cp_user req") (auto simp: ensure_visit_def)
  from assms tp uid pid show ?thesis
    by (auto simp: ensure_visit_def visit_create_def Let_def split: if_splits)
qed

text \<open>
  C5, as the code has it. A successful \<^verbatim>\<open>createPrescription\<close> call without a visit
  reference has a patient and a user, and adds exactly one visit, under a new id: status
  Completed, chief complaint "Direct Prescription", the given patient, and as doctor the
  user who makes the request (\<^verbatim>\<open>req.user.userId\<close>); every prescription of the batch
  refers to that visit.
\<close>

theorem direct_prescription_visit:
  assumes "createPrescription req db = (Inr ps, db')" "\<not> truthy (cp_visitId req)"
  shows "\<exists>uid pid. cp_user req = Some uid \<and> cp_patientId req = Some pid
           \<and> visits db' = visits db @
                 [\<lparr>visit_id = fresh_id (map visit_id (visits db)), visit_patientId = pid,
                   visit_doctorId = uid, visit_visitDate = cp_now req,
                   visit_chiefComplaint = ''Direct Prescription'',
                   visit_status = ''Completed''\<rparr>]
           \<and> fresh_id (map visit_id (visits db)) \<notin> visit_id ` set (visits db)
           \<and> (\<forall>p\<in>set ps. rx_visitId p = fresh_id (map visit_id (visits db)))"
proof -
  from createPrescription_Inr_tx[OF assms(1)] obtain dbl where
    tx: "createPrescription_tx req db = (Inr ps, dbl)" and vs: "visits db' = visits dbl"
    by metis
  from createPrescription_tx_Inr[OF tx] obtain vid and v :: visit_row and dbv where
    ev: "ensure_visit req db = (Inr vid, dbv)" and
    loop: "fulfil_items req vid (visit_patientId v) (cp_medications req) [] dbv = (Inr ps, dbl)"
    by metis
  from ensure_visit_created[OF ev assms(2)] obtain uid pid where
    c: "cp_user req = Some uid" "cp_patientId req = Some pid"
      "vid = fresh_id (map visit_id (visits db))"
      "dbv = db\<lparr>visits := visits db @
                 [\<lparr>visit_id = fresh_id (map visit_id (visits db)), visit_patientId = pid,
                   visit_doctorId = uid, visit_visitDate = cp_now req,
                   visit_chiefComplaint = ''Direct Prescription'',
                   visit_status = ''Completed''\<rparr>]\<rparr>"
    by blast
  from fulfil_items_Inr[OF loop] obtain new :: "prescription_row list"
    and ts :: "transaction_row list" where
    n: "ps = [] @ new" "length new = length (cp_medications req)" "visits dbl = visits dbv"
      "\<forall>i<length (cp_medications req).
          item_paid dbv (cp_medications req ! i) (new ! i) (ts ! i) \<and> rx_visitId (new ! i) = vid"
    by blast
  have all: "\<forall>p\<in>set ps. rx_visitId p = fresh_id (map visit_id (visits db))"
    using n(1,2,4) c(3) by (auto simp: in_set_conv_nth)
  have fresh: "fresh_id (map visit_id (visits db)) \<notin> visit_id ` set (visits db)"
    using fresh_id_notin[of "map visit_id (visits db)"] by simp
  show ?thesis
    apply (rule exI[of _ uid], rule exI[of _ pid])
    using c(1,2,4) vs n(3) fresh all by simp
qed

theorem direct_prescription_visit_witness:
  "createPrescription (batch [item ''A'' 1]) db_AB
     = (Inr (projr (fst (createPrescription (batch [item ''A'' 1]) db_AB))),
        snd (createPrescription (batch [item ''A'' 1]) db_AB))
   \<and> \<not> truthy (cp_visitId (batch [item ''A'' 1]))
   \<and> (\<exists>uid pid. cp_user (batch [item ''A'' 1]) = Some uid
          \<and> cp_patientId (batch [item ''A'' 1]) = Some pid
          \<and> visits (snd (createPrescription (batch [item ''A'' 1]) db_AB)) = visits db_AB @
                 [\<lparr>visit_id = fresh_id (map visit_id (visits db_AB)), visit_patientId = pid,
                   visit_doctorId = uid, visit_visitDate = cp_now (batch [item ''A'' 1]),
                   visit_chiefComplaint = ''Direct Prescription'',
                   visit_status = ''Completed''\<rparr>])"
proof -
  let ?c = "createPrescription (batch [item ''A'' 1]) db_AB"
  have "\<not> isl (fst ?c)" by code_simp
  then have h1: "?c = (Inr (projr (fst ?c)), snd ?c)"
    by (cases ?c; cases "fst ?c") auto
  have h2: "\<not> truthy (cp_visitId (batch [item ''A'' 1]))" by code_simp
  from direct_prescription_visit[OF h1 h2] h1 h2 show ?thesis by blast
qed

text \<open>
  C5 as the specification words it does not hold: the doctor of the new visit is the user
  of the request, not the \<^verbatim>\<open>prescribedBy\<close> of the body. Here user \<open>u1\<close> submits a batch
  prescribed by \<open>u2\<close>.
\<close>

theorem direct_prescription_doctor_is_caller:
  "\<not> isl (fst (createPrescription (batch [item ''A'' 1]) db_AB))
   \<and> cp_prescribedBy (batch [item ''A'' 1]) = ''u2''
   \<and> map visit_doctorId (visits (snd (createPrescription (batch [item ''A'' 1]) db_AB)))
       = [''u1'']"
  by code_simp

section \<open>The cost of a restock\<close>

lemma adjustStock_Inr:
  assumes "adjustStock req db = (Inr updated, db')"
  obtains m :: stock_row and db1 db2 where
    "pharmacyStock_findUnique (as_id req) db = Some m"
    "expenses db1 = expenses db" "transactions db1 = transactions db"
    "users db1 = users db"
    "record_restock req m db1 = (Inr (), db2)"
    "expenses db' = expenses db2" "transactions db' = transactions db2"
proof -
  from assms obtain m :: stock_row where m: "pharmacyStock_findUnique (as_id req) db = Some m"
    by (cases "pharmacyStock_findUnique (as_id req) db") (simp_all add: adjustStock_def)
  define newStock where "newStock =
                 (if as_type req = ''add'' then currentStock m + as_quantity req
                  else currentStock m - as_quantity req)"
  from assms m have nn: "\<not> newStock < 0"
    by (auto simp: adjustStock_def Let_def newStock_def split: if_splits)
  let ?f = "\<lambda>r. r\<lparr>currentStock := newStock,
                            costPrice :=
                              (if as_type req = ''add'' then
                                 (case as_newCost req of None \<Rightarrow> costPrice r | Some c \<Rightarrow> c)
                               else costPrice r),
                            expiryDate :=
                              (if as_type req = ''add'' then
                                 (case as_newExpiry req of None \<Rightarrow> expiryDate r | Some d \<Rightarrow> Some d)
                               else expiryDate r)\<rparr>"
  obtain r1 db1 where u: "pharmacyStock_update (as_id req) ?f db = (r1, db1)"
    by (cases "pharmacyStock_update (as_id req) ?f db")
  obtain r2 db2 where rr: "record_restock req m db1 = (r2, db2)"
    by (cases "record_restock req m db1")
  from assms m nn u rr have r2: "r2 = Inr ()"
    by (cases r2; cases r1)
      (simp_all add: adjustStock_def Let_def newStock_def[symmetric])
  from assms m nn u rr r2 have tabs: "expenses db' = expenses db2" "transactions db' = transactions db2"
    by (cases r1; auto simp: adjustStock_def Let_def newStock_def[symmetric] frame
        split: option.splits)+
  have f1: "expenses db1 = expenses db" "transactions db1 = transactions db" "users db1 = users db"
    using u pharmacyStock_update_frame[of "as_id req" ?f db] by simp_all
  from that[OF m f1 rr[unfolded r2] tabs] show thesis .
qed

text \<open>
  C6, as the code has it. A successful \<^verbatim>\<open>adjustStock\<close> call of type add with a positive
  quantity, for which the total cost the handler computes, \<^verbatim>\<open>costPerUnit * quantity\<close> in
  double arithmetic with the effective cost price as cost per unit, is positive, adds
  exactly one expense of category INVENTORY and exactly one transaction of type EXPENSE and
  category PHARMACY, both of that computed amount.
\<close>

theorem restock_records_cost:
  assumes "adjustStock req db = (Inr updated, db')"
    and "as_type req = ''add''" "0 < as_quantity req"
    and "pharmacyStock_findUnique (as_id req) db = Some m"
    and "0 < computed_product (effective_cost req m) (as_quantity req)"
  shows "\<exists>e t. expenses db' = expenses db @ [e] \<and> exp_category e = ''INVENTORY''
           \<and> exp_amount e = computed_product (effective_cost req m) (as_quantity req)
           \<and> transactions db' = transactions db @ [t]
           \<and> txn_type t = ''EXPENSE'' \<and> txn_category t = ''PHARMACY''
           \<and> txn_amount t = computed_product (effective_cost req m) (as_quantity req)"
proof -
  from adjustStock_Inr[OF assms(1)] assms(4) obtain db1 db2 where
    a: "expenses db1 = expenses db" "transactions db1 = transactions db"
      "record_restock req m db1 = (Inr (), db2)"
      "expenses db' = expenses db2" "transactions db' = transactions db2"
    by (metis option.inject)
  have nz: "as_newCost req \<noteq> Some 0"
    using assms(5) by (auto simp: effective_cost_def computed_product_zero)
  let ?total = "js_mul (js_Number (effective_cost req m)) (of_int (as_quantity req))"
  have pos: "0 < ?total"
    using assms(5) by (simp add: computed_product_def)
  have cpu: "(case as_newCost req of
                None \<Rightarrow> js_Number (costPrice m)
              | Some c \<Rightarrow> if c \<noteq> 0 then js_Number c else js_Number (costPrice m))
             = js_Number (effective_cost req m)"
    using nz by (auto simp: effective_cost_def split: option.splits)
  from a(3) assms(2,3) pos obtain uid where uid: "as_user req = Some uid"
    unfolding record_restock_def Let_def cpu by (cases "as_user req") auto
  let ?mke = "\<lambda>i. \<lparr>exp_id = i, exp_category = ''INVENTORY'', exp_amount = ?total,
                              exp_date = as_now req, exp_createdBy = uid\<rparr>"
  let ?mkt = "\<lambda>i. \<lparr>txn_id = i, txn_type = ''EXPENSE'', txn_category = ''PHARMACY'',
                                   txn_amount = ?total,
                                   txn_referenceId = Some (stock_id m),
                                   txn_referenceType = Some ''PharmacyStock'',
                                   txn_paymentMethod = None,
                                   txn_createdBy = uid,
                                   txn_patientId = None\<rparr>"
  have rr: "record_restock req m db1 =
      (case expense_create ?mke db1 of
         (Inl e, d) \<Rightarrow> (Inl e, d)
       | (Inr _, d) \<Rightarrow>
           (case transaction_create ?mkt d of
              (Inl e, d2) \<Rightarrow> (Inl e, d2)
            | (Inr _, d2) \<Rightarrow> (Inr (), d2)))"
    unfolding record_restock_def Let_def cpu using assms(2,3) pos uid by simp
  obtain re de where ec: "expense_create ?mke db1 = (re, de)"
    by (cases "expense_create ?mke db1")
  from a(3) rr ec obtain e where re: "re = Inr e" by (cases re) auto
  obtain rt dt where tc: "transaction_create ?mkt de = (rt, dt)"
    by (cases "transaction_create ?mkt de")
  from a(3) rr ec re tc obtain t where rt: "rt = Inr t" by (cases rt) auto
  from a(3) rr ec re tc rt have d2: "db2 = dt" by simp
  from ec re have e: "e = ?mke (fresh_id (map exp_id (expenses db1)))"
    "de = db1\<lparr>expenses := expenses db1 @ [e]\<rparr>"
    by (auto simp: expense_create_def Let_def split: if_splits)
  note t = transaction_create_Inr[OF tc[unfolded rt]]
  show ?thesis
    apply (rule exI[of _ e], rule exI[of _ t])
    using a(1,2,4,5) d2 e t by (simp add: computed_product_def)
qed

text \<open>The example of the specification: 50 units at a new cost of 2.00 make 100.00.\<close>

theorem restock_records_cost_witness:
  "adjustStock restock_A db_AB
     = (Inr (projr (fst (adjustStock restock_A db_AB))), snd (adjustStock restock_A db_AB))
   \<and> as_type restock_A = ''add'' \<and> 0 < as_quantity restock_A
   \<and> pharmacyStock_findUnique (as_id restock_A) db_AB = Some stock_A
   \<and> 0 < computed_product (effective_cost restock_A stock_A) (as_quantity restock_A)
   \<and> (\<exists>e t. expenses (snd (adjustStock restock_A db_AB)) = expenses db_AB @ [e]
          \<and> exp_category e = ''INVENTORY'' \<and> exp_amount e = 100
          \<and> transactions (snd (adjustStock restock_A db_AB)) = transactions db_AB @ [t]
          \<and> txn_type t = ''EXPENSE'' \<and> txn_category t = ''PHARMACY'' \<and> txn_amount t = 100)"
proof -
  let ?a = "adjustStock restock_A db_AB"
  have "\<not> isl (fst ?a)" by code_simp
  then have h1: "?a = (Inr (projr (fst ?a)), snd ?a)"
    by (cases ?a; cases "fst ?a") auto
  have h2: "as_type restock_A = ''add''" by code_simp
  have h3: "0 < as_quantity restock_A" by code_simp
  have h4: "pharmacyStock_findUnique (as_id restock_A) db_AB = Some stock_A" by code_simp
  have h5: "0 < computed_product (effective_cost restock_A stock_A) (as_quantity restock_A)" by code_simp
  have v: "computed_product (effective_cost restock_A stock_A) (as_quantity restock_A) = 100" by code_simp
  from restock_records_cost[OF h1 h2 h3 h4 h5] v
  have "\<exists>e t. expenses (snd ?a) = expenses db_AB @ [e]
          \<and> exp_category e = ''INVENTORY'' \<and> exp_amount e = 100
          \<and> transactions (snd ?a) = transactions db_AB @ [t]
          \<and> txn_type t = ''EXPENSE'' \<and> txn_category t = ''PHARMACY'' \<and> txn_amount t = 100"
    by simp
  with h1 h2 h3 h4 h5 show ?thesis by blast
qed

text \<open>
  C6 as the specification words it does not hold, in two ways. The rows are written only
  when the total cost is positive (line 192): restocking 50 units of a medication whose cost
  price is 0, without a new cost, succeeds and writes neither row. And the amount is the
  product of double arithmetic: restocking 100 units at a new cost of 0.07 records
  7.000000000000001 in both rows, not 7.
\<close>

theorem restock_not_as_worded:
  "as_type restock_gift = ''add'' \<and> 0 < as_quantity restock_gift
   \<and> \<not> isl (fst (adjustStock restock_gift db_gift))
   \<and> map currentStock (pharmacy_stock (snd (adjustStock restock_gift db_gift))) = [60]
   \<and> expenses (snd (adjustStock restock_gift db_gift)) = []
   \<and> transactions (snd (adjustStock restock_gift db_gift)) = []
   \<and> as_type restock_cents = ''add'' \<and> as_quantity restock_cents = 100
   \<and> effective_cost restock_cents stock_A = 7 / 100
   \<and> \<not> isl (fst (adjustStock restock_cents db_AB))
   \<and> map exp_amount (expenses (snd (adjustStock restock_cents db_AB)))
       = [to_double (7000000000000001 / 10 ^ 15)]
   \<and> map txn_amount (transactions (snd (adjustStock restock_cents db_AB)))
       = [to_double (7000000000000001 / 10 ^ 15)]
   \<and> to_double (7000000000000001 / 10 ^ 15) \<noteq> 100 * effective_cost restock_cents stock_A"
  by code_simp

section \<open>Atomicity of the restock\<close>

text \<open>
  C4 does not hold of the code. \<^verbatim>\<open>adjustStock\<close> sends its three writes to the database one
  by one, outside \<^verbatim>\<open>prisma.$transaction\<close>. When the expense is refused, here because the
  user of the request has no row, the handler answers with the error, and the stock row
  keeps the new level and the new cost price while no expense and no transaction exist.
\<close>

theorem restock_not_atomic:
  "fst (adjustStock restock_stale db_AB) = Inl (ForeignKeyViolation ''createdBy'')
   \<and> map currentStock (pharmacy_stock db_AB) = [10, 3]
   \<and> map currentStock (pharmacy_stock (snd (adjustStock restock_stale db_AB))) = [60, 3]
   \<and> map costPrice (pharmacy_stock (snd (adjustStock restock_stale db_AB))) = [2, 1]
   \<and> expenses (snd (adjustStock restock_stale db_AB)) = []
   \<and> transactions (snd (adjustStock restock_stale db_AB)) = []"
  by code_simp

section \<open>Paid is not terminal\<close>

text \<open>
  Two things do hold of a Paid prescription: \<^verbatim>\<open>fulfillPrescription\<close> refuses it and
  changes nothing; and an \<^verbatim>\<open>updatePrescription\<close> whose body has only the fields the
  route schema names leaves payment status, total amount, transaction id and quantity of
  every prescription, and the transaction table, as they are.
\<close>

lemma fulfillPrescription_refuses_paid:
  assumes "prescription_findUnique (fp_id req) db = Some p" "rx_paymentStatus p = ''Paid''"
  shows "snd (fulfillPrescription req db) = db" and "isl (fst (fulfillPrescription req db))"
  using assms by (simp_all add: fulfillPrescription_def split: option.splits)

lemma updatePrescription_listed_fields:
  assumes "ub_quantity (up_body req) = None" "ub_totalAmount (up_body req) = None"
    "ub_paymentStatus (up_body req) = None" "ub_paidAt (up_body req) = None"
    "ub_transactionId (up_body req) = None"
  shows "map rx_paymentStatus (prescriptions (snd (updatePrescription req db)))
           = map rx_paymentStatus (prescriptions db)"
    and "map rx_totalAmount (prescriptions (snd (updatePrescription req db)))
           = map rx_totalAmount (prescriptions db)"
    and "map rx_transactionId (prescriptions (snd (updatePrescription req db)))
           = map rx_transactionId (prescriptions db)"
    and "map rx_quantity (prescriptions (snd (updatePrescription req db)))
           = map rx_quantity (prescriptions db)"
    and "transactions (snd (updatePrescription req db)) = transactions db"
  using assms
  by (simp_all add: updatePrescription_def prescription_update_def apply_update_body_def
      createAuditLog_def comp_def split: option.splits)

text \<open>
  C8 does not hold of the code. The handler writes whatever the body carries, and the route
  lets a body with \<^verbatim>\<open>paymentStatus\<close> through: the prescription paid by
  \<^verbatim>\<open>createPrescription\<close> goes back to Pending, \<^verbatim>\<open>fulfillPrescription\<close> then accepts it,
  deducts the stock a second time and records a second sale for the same prescription.
\<close>

theorem paid_prescription_reopened:
  "map rx_id (prescriptions db_paid) = [''0'']
   \<and> map rx_paymentStatus (prescriptions db_paid) = [''Paid'']
   \<and> updatePrescriptionSchema (up_body reset_payment)
   \<and> \<not> isl (fst (put_prescription reset_payment db_paid))
   \<and> map rx_paymentStatus (prescriptions (snd (put_prescription reset_payment db_paid)))
       = [''Pending'']
   \<and> \<not> isl (fst (fulfillPrescription fulfill_again
                    (snd (put_prescription reset_payment db_paid))))
   \<and> map txn_type (transactions (snd (fulfillPrescription fulfill_again
                    (snd (put_prescription reset_payment db_paid)))))
       = [''SALE'', ''SALE'']
   \<and> map txn_referenceId (transactions (snd (fulfillPrescription fulfill_again
                    (snd (put_prescription reset_payment db_paid)))))
       = [Some ''0'', Some ''0'']
   \<and> map currentStock (pharmacy_stock db_paid) = [6, 3]
   \<and> map currentStock (pharmacy_stock (snd (fulfillPrescription fulfill_again
                    (snd (put_prescription reset_payment db_paid)))))
       = [2, 3]"
  by code_simp

end
